theory Spec2Isabelle
  imports Main "HOL-Library.Word"
begin

section \<open>The Go library functions that engine/kube/util.go calls\<close>

text \<open>
  Go strings are byte sequences: \<open>string\<close>. Go's \<open>int\<close> is taken at 64 bits (amd64, arm64),
  \<open>int64\<close> and \<open>int32\<close> are words, and the conversion \<open>int32(x)\<close> keeps the low 32 bits.
\<close>

type_synonym go_int = "64 word"
type_synonym int64 = "64 word"
type_synonym int32 = "32 word"

definition int32 :: "64 word \<Rightarrow> int32" where
  "int32 x = ucast x"

text \<open>\<open>strings.Join(elems, sep)\<close>.\<close>

fun strings_Join :: "string list \<Rightarrow> string \<Rightarrow> string" where
  "strings_Join [] sep = []"
| "strings_Join [e] sep = e"
| "strings_Join (e # es) sep = e @ sep @ strings_Join es sep"

text \<open>
  \<open>path.Clean\<close>, element by element. The path is cut at its slashes; an empty element and
  \<open>.\<close> are dropped; \<open>..\<close> removes the element before it when there is one that is not
  itself \<open>..\<close>, is dropped at the root, and is kept otherwise; the elements that remain are
  joined by single slashes, after a leading slash when the path is rooted. The empty result
  is \<open>.\<close>.
\<close>

fun split_slash :: "string \<Rightarrow> string list" where
  "split_slash [] = [[]]"
| "split_slash (c # cs) =
     (if c = CHR ''/'' then [] # split_slash cs
      else (case split_slash cs of
              [] \<Rightarrow> [[c]]
            | e # es \<Rightarrow> (c # e) # es))"

definition clean_elem :: "bool \<Rightarrow> string list \<Rightarrow> string \<Rightarrow> string list" where
  "clean_elem rooted out e =
     (if e = [] \<or> e = ''.'' then out
      else if e = ''..'' then
        (if out \<noteq> [] \<and> last out \<noteq> ''..'' then butlast out
         else if \<not> rooted then out @ [''..'']
         else out)
      else out @ [e])"

definition path_Clean :: "string \<Rightarrow> string" where
  "path_Clean p =
     (if p = [] then ''.''
      else
        (let rooted = (hd p = CHR ''/'');
             out = foldl (clean_elem rooted) [] (split_slash p);
             s = (if rooted then ''/'' else []) @ strings_Join out ''/''
         in if s = [] then ''.'' else s))"

text \<open>
  \<open>filepath.Join\<close> on a Unix target: the elements from the first non-empty one on are joined
  with the separator and the result is cleaned; no non-empty element gives the empty string.
\<close>

fun filepath_Join :: "string list \<Rightarrow> string" where
  "filepath_Join [] = []"
| "filepath_Join (e # es) =
     (if e \<noteq> [] then path_Clean (strings_Join (e # es) ''/'') else filepath_Join es)"

text \<open>
  \<open>path.Base\<close>: the last element of the path, trailing slashes removed first; \<open>.\<close> for the
  empty path and \<open>/\<close> for a path of slashes only.
\<close>

definition path_Base :: "string \<Rightarrow> string" where
  "path_Base p =
     (if p = [] then ''.''
      else
        (let p1 = rev (dropWhile (\<lambda>c. c = CHR ''/'') (rev p));
             p2 = rev (takeWhile (\<lambda>c. c \<noteq> CHR ''/'') (rev p1))
         in if p2 = [] then ''/'' else p2))"

text \<open>\<open>path.Dir\<close>: everything up to and including the last slash, cleaned.\<close>

definition path_Dir :: "string \<Rightarrow> string" where
  "path_Dir p = path_Clean (rev (dropWhile (\<lambda>c. c \<noteq> CHR ''/'') (rev p)))"

text \<open>\<open>strconv.Itoa\<close>: the decimal digits of a Go \<open>int\<close>, after a minus sign when negative.\<close>

fun digits :: "nat \<Rightarrow> string" where
  "digits n = (if n < 10 then [''0123456789'' ! n] else digits (n div 10) @ [''0123456789'' ! (n mod 10)])"

declare digits.simps [simp del]

definition strconv_Itoa :: "go_int \<Rightarrow> string" where
  "strconv_Itoa i = (if sint i < 0 then CHR ''-'' # digits (nat (- sint i)) else digits (nat (sint i)))"

text \<open>
  \<open>strconv.ParseBool\<close> returns a value and an error: the value is \<open>false\<close> whenever the error
  is set.
\<close>

datatype NumError = ErrSyntax

definition strconv_ParseBool :: "string \<Rightarrow> bool \<times> NumError option" where
  "strconv_ParseBool str =
     (if str \<in> set [''1'', ''t'', ''T'', ''TRUE'', ''true'', ''True''] then (True, None)
      else if str \<in> set [''0'', ''f'', ''F'', ''FALSE'', ''false'', ''False''] then (False, None)
      else (False, Some ErrSyntax))"

text \<open>\<open>strings.Replace(s, old, new, -1)\<close> for one-byte \<open>old\<close> and \<open>new\<close>: every occurrence is replaced.\<close>

primrec strings_Replace1 :: "string \<Rightarrow> char \<Rightarrow> char \<Rightarrow> string" where
  "strings_Replace1 [] old new = []"
| "strings_Replace1 (c # cs) old new = (if c = old then new else c) # strings_Replace1 cs old new"

section \<open>The pipeline model: package engine\<close>

text \<open>
  Modelled from the spec: the types of package \<open>engine\<close> (section 3 of the specification),
  whose declarations are not among the sources. Each record has the fields that util.go
  reads, under the names it reads them by and at the types its uses force: what goes to
  \<open>strconv.Itoa\<close> is an \<open>int\<close>, what is compared with \<open>int64(0)\<close> an \<open>int64\<close>, what is
  assigned to \<open>KeyToPath.Mode\<close> a pointer to \<open>int32\<close>; the file mode, which util.go
  converts with \<open>int32(...)\<close>, is taken as \<open>int64\<close>. A pointer that util.go compares with
  \<open>nil\<close> is an \<open>option\<close>; \<open>step.Docker\<close> and \<open>spec.Docker\<close>, which it reads without a
  test, are plain fields, and the specification and the step themselves are not \<open>nil\<close>. A
  Go map that is only passed on is a partial function; \<open>step.Envs\<close>, which util.go ranges
  over, is the list of the map's entries in the order the loop visits them.
\<close>

record Metadata =
  md_UID :: string
  md_Namespace :: string
  md_Name :: string
  md_Labels :: "string \<rightharpoonup> string"

record Secret =
  sec_Metadata :: Metadata
  sec_Data :: string

record File =
  file_Metadata :: Metadata
  file_Data :: string

datatype VolumeEmptyDir = VolumeEmptyDir

record VolumeHostPath =
  hp_Path :: string

record VolumeSecretItem =
  si_Key :: string
  si_Path :: string
  si_Mode :: "int32 option"

record VolumeSecret =
  vs_Name :: string
  vs_Items :: "VolumeSecretItem list"

record Volume =
  vol_Metadata :: Metadata
  vol_EmptyDir :: "VolumeEmptyDir option"
  vol_HostPath :: "VolumeHostPath option"
  vol_Secret :: "VolumeSecret option"

record SecretVar =
  sv_Name :: string
  sv_Env :: string

record FileMount =
  fm_Name :: string
  fm_Path :: string
  fm_Mode :: int64

record VolumeMount =
  vm_Name :: string
  vm_Path :: string

record Port =
  port_Port :: go_int
  port_Host :: go_int

record ResourceObject =
  ro_CPU :: int64
  ro_Memory :: int64

record Resources =
  res_Limits :: "ResourceObject option"
  res_Requests :: "ResourceObject option"

datatype PullPolicy = PullDefault | PullAlways | PullIfNotExists | PullNever

record DockerStep =
  ds_Args :: "string list"
  ds_Command :: "string list"
  ds_Image :: string
  ds_Ports :: "Port list"
  ds_Privileged :: bool
  ds_PullPolicy :: PullPolicy

record Step =
  step_Metadata :: Metadata
  step_Docker :: DockerStep
  step_Envs :: "(string \<times> string) list"
  step_Files :: "FileMount list"
  step_Resources :: "Resources option"
  step_Secrets :: "SecretVar list"
  step_Volumes :: "VolumeMount list"
  step_WorkingDir :: string

record DockerAuth =
  da_Address :: string
  da_Username :: string
  da_Password :: string

record DockerConfig =
  dc_Auths :: "DockerAuth list"

record Spec =
  spec_Metadata :: Metadata
  spec_Secrets :: "Secret list"
  spec_Files :: "File list"
  spec_Volumes :: "Volume list"
  spec_Docker :: DockerConfig

text \<open>
  Modelled from the spec: \<open>engine.LookupSecret\<close>, which is not among the sources. Section 6:
  lookup of a secret given a name returns a found or not-found result, never an error;
  section 3: the \<open>Name\<close> of the identity block is the one used for lookup.
\<close>

definition LookupSecret :: "Spec \<Rightarrow> string \<Rightarrow> Secret option" where
  "LookupSecret spec name = find (\<lambda>sec. md_Name (sec_Metadata sec) = name) (spec_Secrets spec)"

text \<open>
  Modelled from the spec: \<open>engine.LookupFile\<close>, which is not among the sources; sections 6
  and 3, as for secrets.
\<close>

definition LookupFile :: "Spec \<Rightarrow> string \<Rightarrow> File option" where
  "LookupFile spec name = find (\<lambda>file. md_Name (file_Metadata file) = name) (spec_Files spec)"

text \<open>
  Modelled from the spec: \<open>engine.LookupVolume\<close>, which is not among the sources; sections 6
  and 3, as for secrets.
\<close>

definition LookupVolume :: "Spec \<Rightarrow> string \<Rightarrow> Volume option" where
  "LookupVolume spec name = find (\<lambda>vol. md_Name (vol_Metadata vol) = name) (spec_Volumes spec)"

section \<open>The cluster schema: the fields of k8s.io/api/core/v1 that util.go sets\<close>

text \<open>A field that util.go leaves out has Go's zero value: the empty string, \<open>None\<close>, the empty list.\<close>

record v1_ObjectFieldSelector =
  ofs_FieldPath :: string

record v1_SecretKeySelector =
  sks_Name :: string
  sks_Key :: string
  sks_Optional :: "bool option"

record v1_EnvVarSource =
  evs_FieldRef :: "v1_ObjectFieldSelector option"
  evs_SecretKeyRef :: "v1_SecretKeySelector option"

record v1_EnvVar =
  ev_Name :: string
  ev_Value :: string
  ev_ValueFrom :: "v1_EnvVarSource option"

record v1_KeyToPath =
  ktp_Key :: string
  ktp_Path :: string
  ktp_Mode :: "int32 option"

record v1_ConfigMapVolumeSource =
  cm_Name :: string
  cm_Optional :: "bool option"
  cm_Items :: "v1_KeyToPath list"

datatype v1_HostPathType = HostPathDirectoryOrCreate

record v1_HostPathVolumeSource =
  hps_Path :: string
  hps_Type :: "v1_HostPathType option"

record v1_SecretVolumeSource =
  svs_SecretName :: string
  svs_Items :: "v1_KeyToPath list"

record v1_Volume =
  v_Name :: string
  v_HostPath :: "v1_HostPathVolumeSource option"
  v_Secret :: "v1_SecretVolumeSource option"
  v_ConfigMap :: "v1_ConfigMapVolumeSource option"

record v1_VolumeMount =
  m_Name :: string
  m_MountPath :: string
  m_SubPath :: string

record v1_ContainerPort =
  cp_ContainerPort :: int32

datatype v1_PullPolicy = v1_PullAlways | v1_PullNever | v1_PullIfNotPresent

text \<open>
  \<open>resource.Quantity\<close> as \<open>resource.NewQuantity\<close> and \<open>resource.NewMilliQuantity\<close> build it:
  an amount, a decimal scale (the quantity is amount times ten to the scale) and the format
  it is printed in.
\<close>

datatype resource_Format = DecimalExponent | BinarySI | DecimalSI

record resource_Quantity =
  q_value :: int64
  q_scale :: int
  q_Format :: resource_Format

definition resource_NewQuantity :: "int64 \<Rightarrow> resource_Format \<Rightarrow> resource_Quantity" where
  "resource_NewQuantity v format = \<lparr>q_value = v, q_scale = 0, q_Format = format\<rparr>"

definition resource_NewMilliQuantity :: "int64 \<Rightarrow> resource_Format \<Rightarrow> resource_Quantity" where
  "resource_NewMilliQuantity v format = \<lparr>q_value = v, q_scale = - 3, q_Format = format\<rparr>"

definition v1_ResourceCPU :: string where
  "v1_ResourceCPU = ''cpu''"

definition v1_ResourceMemory :: string where
  "v1_ResourceMemory = ''memory''"

record v1_ResourceRequirements =
  rr_Limits :: "(string \<rightharpoonup> resource_Quantity) option"
  rr_Requests :: "(string \<rightharpoonup> resource_Quantity) option"

record v1_SecurityContext =
  sc_Privileged :: "bool option"

record v1_Container =
  c_Name :: string
  c_Image :: string
  c_ImagePullPolicy :: v1_PullPolicy
  c_Command :: "string list"
  c_Args :: "string list"
  c_WorkingDir :: string
  c_SecurityContext :: "v1_SecurityContext option"
  c_Env :: "v1_EnvVar list"
  c_VolumeMounts :: "v1_VolumeMount list"
  c_Ports :: "v1_ContainerPort list"
  c_Resources :: v1_ResourceRequirements

record v1_LocalObjectReference =
  lor_Name :: string

datatype v1_RestartPolicy = RestartPolicyAlways | RestartPolicyOnFailure | RestartPolicyNever

record v1_PodSpec =
  ps_AutomountServiceAccountToken :: "bool option"
  ps_RestartPolicy :: v1_RestartPolicy
  ps_Containers :: "v1_Container list"
  ps_ImagePullSecrets :: "v1_LocalObjectReference list"
  ps_Volumes :: "v1_Volume list"

record v1_ObjectMeta =
  om_Name :: string
  om_Namespace :: string
  om_Labels :: "string \<rightharpoonup> string"

record v1_Pod =
  pod_ObjectMeta :: v1_ObjectMeta
  pod_Spec :: v1_PodSpec

record v1_Namespace =
  ns_ObjectMeta :: v1_ObjectMeta

record v1_Secret =
  ks_ObjectMeta :: v1_ObjectMeta
  ks_Type :: string
  ks_StringData :: "string \<rightharpoonup> string"

datatype intstr_Type = intstr_Int | intstr_String

record intstr_IntOrString =
  ios_Type :: intstr_Type
  ios_IntVal :: int32
  ios_StrVal :: string

record v1_ServicePort =
  sp_Name :: string
  sp_Port :: int32
  sp_TargetPort :: intstr_IntOrString

datatype v1_ServiceType = ServiceTypeClusterIP | ServiceTypeNodePort | ServiceTypeLoadBalancer

record v1_ServiceSpec =
  ss_Type :: v1_ServiceType
  ss_Selector :: "string \<rightharpoonup> string"
  ss_Ports :: "v1_ServicePort list"

record v1_Service =
  svc_ObjectMeta :: v1_ObjectMeta
  svc_Spec :: v1_ServiceSpec

section \<open>engine/kube/util.go\<close>

text \<open>
  Each \<open>for ... range\<close> loop is a recursive function over the list it ranges over, with the
  slice it appends to as accumulator. Reading a field through a \<open>nil\<close> pointer panics: the
  two functions that do it without a test of their own, \<open>toHostPathVolume\<close> and
  \<open>toSecretVolumes\<close>, return the panic as a value, and their callers pass it on.
\<close>

datatype panic = NilDereference

definition envAutomountServiceAccountToken :: string where
  "envAutomountServiceAccountToken = ''PLUGIN_AUTOMOUNTSERVICEACCOUNTTOKEN''"

fun toEnv_envs :: "(string \<times> string) list \<Rightarrow> v1_EnvVar list \<Rightarrow> v1_EnvVar list" where
  "toEnv_envs [] to = to"
| "toEnv_envs ((k, v) # rest) to =
     toEnv_envs rest
       (if k \<noteq> envAutomountServiceAccountToken
        then to @ [\<lparr>ev_Name = k, ev_Value = v, ev_ValueFrom = None\<rparr>]
        else to)"

fun toEnv_secrets :: "Spec \<Rightarrow> SecretVar list \<Rightarrow> v1_EnvVar list \<Rightarrow> v1_EnvVar list" where
  "toEnv_secrets spec [] to = to"
| "toEnv_secrets spec (secret # rest) to =
     (case LookupSecret spec (sv_Name secret) of
        None \<Rightarrow> toEnv_secrets spec rest to
      | Some sec \<Rightarrow>
          toEnv_secrets spec rest
            (to @ [\<lparr>ev_Name = sv_Env secret, ev_Value = [],
                    ev_ValueFrom = Some \<lparr>evs_FieldRef = None,
                      evs_SecretKeyRef = Some \<lparr>sks_Name = md_UID (sec_Metadata sec),
                        sks_Key = md_UID (sec_Metadata sec),
                        sks_Optional = Some True\<rparr>\<rparr>\<rparr>]))"

definition toEnv :: "Spec \<Rightarrow> Step \<Rightarrow> v1_EnvVar list" where
  "toEnv spec step =
     (let to = toEnv_envs (step_Envs step) [];
          to = to @ [\<lparr>ev_Name = ''KUBERNETES_NODE'', ev_Value = [],
                      ev_ValueFrom = Some \<lparr>evs_FieldRef = Some \<lparr>ofs_FieldPath = ''spec.nodeName''\<rparr>,
                        evs_SecretKeyRef = None\<rparr>\<rparr>]
      in toEnv_secrets spec (step_Secrets step) to)"

fun toPullPolicy :: "PullPolicy \<Rightarrow> v1_PullPolicy" where
  "toPullPolicy PullAlways = v1_PullAlways"
| "toPullPolicy PullNever = v1_PullNever"
| "toPullPolicy PullIfNotExists = v1_PullIfNotPresent"
| "toPullPolicy PullDefault = v1_PullIfNotPresent"

definition toSecret :: "Spec \<Rightarrow> Secret \<Rightarrow> v1_Secret" where
  "toSecret spec from =
     \<lparr>ks_ObjectMeta = \<lparr>om_Name = md_UID (sec_Metadata from), om_Namespace = [], om_Labels = Map.empty\<rparr>,
      ks_Type = ''Opaque'',
      ks_StringData = [md_UID (sec_Metadata from) \<mapsto> sec_Data from]\<rparr>"

fun toConfigVolumes_loop :: "Spec \<Rightarrow> FileMount list \<Rightarrow> v1_Volume list \<Rightarrow> v1_Volume list" where
  "toConfigVolumes_loop spec [] to = to"
| "toConfigVolumes_loop spec (mount # rest) to =
     (case LookupFile spec (fm_Name mount) of
        None \<Rightarrow> toConfigVolumes_loop spec rest to
      | Some file \<Rightarrow>
          (let mode = int32 (fm_Mode mount);
               volume = \<lparr>v_Name = md_UID (file_Metadata file), v_HostPath = None, v_Secret = None,
                         v_ConfigMap = None\<rparr>;
               optional = False;
               volume = volume\<lparr>v_ConfigMap := Some
                         \<lparr>cm_Name = md_UID (file_Metadata file),
                          cm_Optional = Some optional,
                          cm_Items = [\<lparr>ktp_Key = md_UID (file_Metadata file),
                                       ktp_Path = path_Base (fm_Path mount),
                                       ktp_Mode = Some mode\<rparr>]\<rparr>\<rparr>
           in toConfigVolumes_loop spec rest (to @ [volume])))"

definition toConfigVolumes :: "Spec \<Rightarrow> Step \<Rightarrow> v1_Volume list" where
  "toConfigVolumes spec step = toConfigVolumes_loop spec (step_Files step) []"

fun toConfigMounts_loop :: "Spec \<Rightarrow> FileMount list \<Rightarrow> v1_VolumeMount list \<Rightarrow> v1_VolumeMount list" where
  "toConfigMounts_loop spec [] to = to"
| "toConfigMounts_loop spec (mount # rest) to =
     (case LookupFile spec (fm_Name mount) of
        None \<Rightarrow> toConfigMounts_loop spec rest to
      | Some file \<Rightarrow>
          (let volume = \<lparr>m_Name = md_UID (file_Metadata file),
                         m_MountPath = path_Dir (fm_Path mount),
                         m_SubPath = []\<rparr>
           in toConfigMounts_loop spec rest (to @ [volume])))"

definition toConfigMounts :: "Spec \<Rightarrow> Step \<Rightarrow> v1_VolumeMount list" where
  "toConfigMounts spec step = toConfigMounts_loop spec (step_Files step) []"

definition toHostPathVolume :: "Spec \<Rightarrow> Volume \<Rightarrow> panic + v1_Volume" where
  "toHostPathVolume spec vol =
     (case (if vol_EmptyDir vol \<noteq> None
            then Inr (filepath_Join [''/tmp'', ''drone'', md_Namespace (spec_Metadata spec),
                                     md_UID (vol_Metadata vol)])
            else (case vol_HostPath vol of
                    None \<Rightarrow> Inl NilDereference
                  | Some hostPath \<Rightarrow> Inr (hp_Path hostPath))) of
        Inl p \<Rightarrow> Inl p
      | Inr path \<Rightarrow>
          (let srcType = HostPathDirectoryOrCreate
           in Inr \<lparr>v_Name = md_UID (vol_Metadata vol),
                   v_HostPath = Some \<lparr>hps_Path = path, hps_Type = Some srcType\<rparr>,
                   v_Secret = None, v_ConfigMap = None\<rparr>))"

fun toSecretVolumes_items ::
  "Spec \<Rightarrow> Volume \<Rightarrow> VolumeSecret \<Rightarrow> VolumeSecretItem list \<Rightarrow> v1_Volume list \<Rightarrow> v1_Volume list" where
  "toSecretVolumes_items spec vol secret [] volumeList = volumeList"
| "toSecretVolumes_items spec vol secret (item # rest) volumeList =
     (let secretName = md_Name (vol_Metadata vol) @ ''-'' @ vs_Name secret @ ''-'' @ si_Key item
      in case LookupSecret spec secretName of
           None \<Rightarrow> toSecretVolumes_items spec vol secret rest volumeList
         | Some sec \<Rightarrow>
             (let secretVolume = \<lparr>v_Name = md_UID (vol_Metadata vol) @ ''-'' @ si_Key item,
                                  v_HostPath = None, v_Secret = None, v_ConfigMap = None\<rparr>;
                  secretVolume = secretVolume\<lparr>v_Secret := Some
                                  \<lparr>svs_SecretName = md_UID (sec_Metadata sec),
                                   svs_Items = [\<lparr>ktp_Key = md_UID (sec_Metadata sec),
                                                 ktp_Path = si_Path item,
                                                 ktp_Mode = si_Mode item\<rparr>]\<rparr>\<rparr>
              in toSecretVolumes_items spec vol secret rest (volumeList @ [secretVolume])))"

definition toSecretVolumes :: "Spec \<Rightarrow> Volume \<Rightarrow> panic + v1_Volume list" where
  "toSecretVolumes spec vol =
     (case vol_Secret vol of
        None \<Rightarrow> Inl NilDereference
      | Some secret \<Rightarrow> Inr (toSecretVolumes_items spec vol secret (vs_Items secret) []))"

fun toVolumes_loop :: "Spec \<Rightarrow> VolumeMount list \<Rightarrow> v1_Volume list \<Rightarrow> panic + v1_Volume list" where
  "toVolumes_loop spec [] to = Inr to"
| "toVolumes_loop spec (mount # rest) to =
     (case LookupVolume spec (vm_Name mount) of
        None \<Rightarrow> toVolumes_loop spec rest to
      | Some vol \<Rightarrow>
          if vol_EmptyDir vol \<noteq> None \<or> vol_HostPath vol \<noteq> None then
            (case toHostPathVolume spec vol of
               Inl p \<Rightarrow> Inl p
             | Inr v \<Rightarrow> toVolumes_loop spec rest (to @ [v]))
          else if vol_Secret vol \<noteq> None then
            (case toSecretVolumes spec vol of
               Inl p \<Rightarrow> Inl p
             | Inr vs \<Rightarrow> toVolumes_loop spec rest (to @ vs))
          else toVolumes_loop spec rest to)"

definition toVolumes :: "Spec \<Rightarrow> Step \<Rightarrow> panic + v1_Volume list" where
  "toVolumes spec step = toVolumes_loop spec (step_Volumes step) []"

fun toVolumeMounts_items ::
  "Volume \<Rightarrow> VolumeMount \<Rightarrow> VolumeSecretItem list \<Rightarrow> v1_VolumeMount list \<Rightarrow> v1_VolumeMount list" where
  "toVolumeMounts_items vol mount [] to = to"
| "toVolumeMounts_items vol mount (item # rest) to =
     toVolumeMounts_items vol mount rest
       (to @ [\<lparr>m_Name = md_UID (vol_Metadata vol) @ ''-'' @ si_Key item,
               m_MountPath = vm_Path mount @ ''/'' @ si_Path item,
               m_SubPath = si_Path item\<rparr>])"

fun toVolumeMounts_loop :: "Spec \<Rightarrow> VolumeMount list \<Rightarrow> v1_VolumeMount list \<Rightarrow> v1_VolumeMount list" where
  "toVolumeMounts_loop spec [] to = to"
| "toVolumeMounts_loop spec (mount # rest) to =
     (case LookupVolume spec (vm_Name mount) of
        None \<Rightarrow> toVolumeMounts_loop spec rest to
      | Some vol \<Rightarrow>
          (case vol_Secret vol of
             Some secret \<Rightarrow>
               toVolumeMounts_loop spec rest (toVolumeMounts_items vol mount (vs_Items secret) to)
           | None \<Rightarrow>
               toVolumeMounts_loop spec rest
                 (to @ [\<lparr>m_Name = md_UID (vol_Metadata vol), m_MountPath = vm_Path mount,
                         m_SubPath = []\<rparr>])))"

definition toVolumeMounts :: "Spec \<Rightarrow> Step \<Rightarrow> v1_VolumeMount list" where
  "toVolumeMounts spec step = toVolumeMounts_loop spec (step_Volumes step) []"

fun toPorts_loop :: "Port list \<Rightarrow> v1_ContainerPort list \<Rightarrow> v1_ContainerPort list" where
  "toPorts_loop [] ports = ports"
| "toPorts_loop (port # rest) ports =
     toPorts_loop rest (ports @ [\<lparr>cp_ContainerPort = int32 (port_Port port)\<rparr>])"

definition toPorts :: "Step \<Rightarrow> v1_ContainerPort list" where
  "toPorts step =
     (if length (ds_Ports (step_Docker step)) = 0 then []
      else toPorts_loop (ds_Ports (step_Docker step)) [])"

definition toNamespace :: "Spec \<Rightarrow> v1_Namespace" where
  "toNamespace spec =
     \<lparr>ns_ObjectMeta = \<lparr>om_Name = md_Namespace (spec_Metadata spec), om_Namespace = [],
                        om_Labels = md_Labels (spec_Metadata spec)\<rparr>\<rparr>"

definition toResources :: "Step \<Rightarrow> v1_ResourceRequirements" where
  "toResources step =
     (let resources = \<lparr>rr_Limits = None, rr_Requests = None\<rparr>;
          resources =
            (case step_Resources step of
               None \<Rightarrow> resources
             | Some r \<Rightarrow>
                 (case res_Limits r of
                    None \<Rightarrow> resources
                  | Some l \<Rightarrow>
                      (let limits = Map.empty;
                           limits = (if 0 <s ro_Memory l
                                     then limits(v1_ResourceMemory \<mapsto> resource_NewQuantity (ro_Memory l) BinarySI)
                                     else limits);
                           limits = (if 0 <s ro_CPU l
                                     then limits(v1_ResourceCPU \<mapsto> resource_NewMilliQuantity (ro_CPU l) DecimalSI)
                                     else limits)
                       in resources\<lparr>rr_Limits := Some limits\<rparr>)));
          resources =
            (case step_Resources step of
               None \<Rightarrow> resources
             | Some r \<Rightarrow>
                 (case res_Requests r of
                    None \<Rightarrow> resources
                  | Some q \<Rightarrow>
                      (let requests = Map.empty;
                           requests = (if 0 <s ro_Memory q
                                       then requests(v1_ResourceMemory \<mapsto> resource_NewQuantity (ro_Memory q) BinarySI)
                                       else requests);
                           requests = (if 0 <s ro_CPU q
                                       then requests(v1_ResourceCPU \<mapsto> resource_NewMilliQuantity (ro_CPU q) DecimalSI)
                                       else requests)
                       in resources\<lparr>rr_Requests := Some requests\<rparr>)))
      in resources)"

text \<open>
  The loop of \<open>toPod\<close> over \<open>step.Envs\<close>: at the reserved key it takes the value that
  \<open>strconv.ParseBool\<close> returns, drops the error and breaks.
\<close>

fun toPod_automount :: "(string \<times> string) list \<Rightarrow> bool \<Rightarrow> bool" where
  "toPod_automount [] automountServiceAccountToken = automountServiceAccountToken"
| "toPod_automount ((k, v) # rest) automountServiceAccountToken =
     (if k = envAutomountServiceAccountToken then fst (strconv_ParseBool v)
      else toPod_automount rest automountServiceAccountToken)"

definition toPod :: "Spec \<Rightarrow> Step \<Rightarrow> panic + v1_Pod" where
  "toPod spec step =
     (case toVolumes spec step of
        Inl p \<Rightarrow> Inl p
      | Inr vs \<Rightarrow>
          (let volumes = [] @ vs;
               volumes = volumes @ toConfigVolumes spec step;
               mounts = [] @ toVolumeMounts spec step;
               mounts = mounts @ toConfigMounts spec step;
               pullSecrets = (if length (dc_Auths (spec_Docker spec)) > 0
                              then [\<lparr>lor_Name = ''docker-auth-config''\<rparr>]
                              else []);
               automountServiceAccountToken = toPod_automount (step_Envs step) False
           in Inr
             \<lparr>pod_ObjectMeta =
                \<lparr>om_Name = md_UID (step_Metadata step),
                 om_Namespace = md_Namespace (step_Metadata step),
                 om_Labels = md_Labels (step_Metadata step)\<rparr>,
              pod_Spec =
                \<lparr>ps_AutomountServiceAccountToken = Some automountServiceAccountToken,
                 ps_RestartPolicy = RestartPolicyNever,
                 ps_Containers =
                   [\<lparr>c_Name = md_UID (step_Metadata step),
                     c_Image = ds_Image (step_Docker step),
                     c_ImagePullPolicy = toPullPolicy (ds_PullPolicy (step_Docker step)),
                     c_Command = ds_Command (step_Docker step),
                     c_Args = ds_Args (step_Docker step),
                     c_WorkingDir = step_WorkingDir step,
                     c_SecurityContext = Some \<lparr>sc_Privileged = Some (ds_Privileged (step_Docker step))\<rparr>,
                     c_Env = toEnv spec step,
                     c_VolumeMounts = mounts,
                     c_Ports = toPorts step,
                     c_Resources = toResources step\<rparr>],
                 ps_ImagePullSecrets = pullSecrets,
                 ps_Volumes = volumes\<rparr>\<rparr>))"

definition toDNS :: "string \<Rightarrow> string" where
  "toDNS i = strings_Replace1 i (CHR ''_'') (CHR ''-'')"

fun toService_ports :: "Port list \<Rightarrow> v1_ServicePort list \<Rightarrow> v1_ServicePort list" where
  "toService_ports [] ports = ports"
| "toService_ports (p # rest) ports =
     (let source = port_Port p;
          target = port_Host p;
          target = (if target = 0 then source else target)
      in toService_ports rest
           (ports @ [\<lparr>sp_Name = strconv_Itoa source,
                      sp_Port = int32 source,
                      sp_TargetPort = \<lparr>ios_Type = intstr_Int, ios_IntVal = int32 target,
                                        ios_StrVal = []\<rparr>\<rparr>]))"

definition toService :: "Spec \<Rightarrow> Step \<Rightarrow> v1_Service" where
  "toService spec step =
     (let ports = toService_ports (ds_Ports (step_Docker step)) []
      in \<lparr>svc_ObjectMeta =
            \<lparr>om_Name = toDNS (md_Name (step_Metadata step)),
             om_Namespace = md_Namespace (step_Metadata step),
             om_Labels = Map.empty\<rparr>,
          svc_Spec =
            \<lparr>ss_Type = ServiceTypeClusterIP,
             ss_Selector = [''io.drone.step.name'' \<mapsto> md_Name (step_Metadata step)],
             ss_Ports = ports\<rparr>\<rparr>)"

text \<open>
  Modelled from the spec: the caller of \<open>toService\<close>, which is not among the sources. Sections
  4.8 and 6: the service is only emitted when at least one port is declared, so a step
  compiles to zero or one service object, present iff the step declares ports.
\<close>

definition stepService :: "Spec \<Rightarrow> Step \<Rightarrow> v1_Service option" where
  "stepService spec step =
     (if length (ds_Ports (step_Docker step)) \<noteq> 0 then Some (toService spec step) else None)"

section \<open>A sample pipeline\<close>

text \<open>
  A specification with two secrets, one file and three volumes, and a step that mounts them,
  names a secret, a file and a volume that the specification does not have, and declares one
  port. The volume \<open>certs\<close> projects three items of the secret \<open>tls\<close>; the only secret
  registered under a name of the form volume-secret-key is \<open>certs-tls-crt\<close>.
\<close>

definition ex_md :: "string \<Rightarrow> string \<Rightarrow> Metadata" where
  "ex_md uid name = \<lparr>md_UID = uid, md_Namespace = ''ns1'', md_Name = name, md_Labels = Map.empty\<rparr>"

definition ex_token :: Secret where
  "ex_token = \<lparr>sec_Metadata = ex_md ''sec-1'' ''token'', sec_Data = ''s3cr3t''\<rparr>"

definition ex_crt :: Secret where
  "ex_crt = \<lparr>sec_Metadata = ex_md ''sec-2'' ''certs-tls-crt'', sec_Data = ''PEM''\<rparr>"

definition ex_netrc :: File where
  "ex_netrc = \<lparr>file_Metadata = ex_md ''file-1'' ''netrc'', file_Data = ''machine''\<rparr>"

definition ex_cache :: Volume where
  "ex_cache = \<lparr>vol_Metadata = ex_md ''vol-abc'' ''cache'', vol_EmptyDir = Some VolumeEmptyDir,
                vol_HostPath = None, vol_Secret = None\<rparr>"

definition ex_sock :: Volume where
  "ex_sock = \<lparr>vol_Metadata = ex_md ''vol-def'' ''sock'', vol_EmptyDir = None,
               vol_HostPath = Some \<lparr>hp_Path = ''/var/run/docker.sock''\<rparr>, vol_Secret = None\<rparr>"

definition ex_items :: "VolumeSecretItem list" where
  "ex_items =
     [\<lparr>si_Key = ''crt'', si_Path = ''tls.crt'', si_Mode = Some 256\<rparr>,
      \<lparr>si_Key = ''key'', si_Path = ''tls.key'', si_Mode = Some 256\<rparr>,
      \<lparr>si_Key = ''ca'', si_Path = ''ca.crt'', si_Mode = None\<rparr>]"

definition ex_tls :: VolumeSecret where
  "ex_tls = \<lparr>vs_Name = ''tls'', vs_Items = ex_items\<rparr>"

definition ex_certs :: Volume where
  "ex_certs = \<lparr>vol_Metadata = ex_md ''vol-ghi'' ''certs'', vol_EmptyDir = None,
                vol_HostPath = None, vol_Secret = Some ex_tls\<rparr>"

definition ex_spec :: Spec where
  "ex_spec =
     \<lparr>spec_Metadata = ex_md ''spec-1'' ''pipeline'',
      spec_Secrets = [ex_token, ex_crt],
      spec_Files = [ex_netrc],
      spec_Volumes = [ex_cache, ex_sock, ex_certs],
      spec_Docker = \<lparr>dc_Auths = [\<lparr>da_Address = ''docker.io'', da_Username = ''octocat'',
                                    da_Password = ''pa55word''\<rparr>]\<rparr>\<rparr>"

definition ex_step :: Step where
  "ex_step =
     \<lparr>step_Metadata = ex_md ''step-1'' ''build_and_test'',
      step_Docker = \<lparr>ds_Args = [], ds_Command = [''make''], ds_Image = ''golang:1.12'',
                      ds_Ports = [\<lparr>port_Port = 8080, port_Host = 0\<rparr>],
                      ds_Privileged = False, ds_PullPolicy = PullIfNotExists\<rparr>,
      step_Envs = [(''GOOS'', ''linux''), (''PLUGIN_AUTOMOUNTSERVICEACCOUNTTOKEN'', ''true'')],
      step_Files = [\<lparr>fm_Name = ''netrc'', fm_Path = ''/root/.netrc'', fm_Mode = 384\<rparr>,
                    \<lparr>fm_Name = ''gone'', fm_Path = ''/root/gone'', fm_Mode = 384\<rparr>],
      step_Resources = Some \<lparr>res_Limits = Some \<lparr>ro_CPU = 500, ro_Memory = 0\<rparr>,
                              res_Requests = None\<rparr>,
      step_Secrets = [\<lparr>sv_Name = ''token'', sv_Env = ''TOKEN''\<rparr>,
                      \<lparr>sv_Name = ''absent'', sv_Env = ''ABSENT''\<rparr>],
      step_Volumes = [\<lparr>vm_Name = ''cache'', vm_Path = ''/cache''\<rparr>,
                      \<lparr>vm_Name = ''certs'', vm_Path = ''/etc/certs''\<rparr>,
                      \<lparr>vm_Name = ''nowhere'', vm_Path = ''/mnt''\<rparr>],
      step_WorkingDir = ''/drone/src''\<rparr>"

text \<open>
  The same specification with a secret registered for each of the three items of \<open>certs\<close>,
  and the mount of \<open>certs\<close> on its own.
\<close>

definition ex_key :: Secret where
  "ex_key = \<lparr>sec_Metadata = ex_md ''sec-3'' ''certs-tls-key'', sec_Data = ''KEY''\<rparr>"

definition ex_ca :: Secret where
  "ex_ca = \<lparr>sec_Metadata = ex_md ''sec-4'' ''certs-tls-ca'', sec_Data = ''CA''\<rparr>"

definition ex_spec_all :: Spec where
  "ex_spec_all = ex_spec\<lparr>spec_Secrets := [ex_token, ex_crt, ex_key, ex_ca]\<rparr>"

definition ex_certs_mount :: VolumeMount where
  "ex_certs_mount = \<lparr>vm_Name = ''certs'', vm_Path = ''/etc/certs''\<rparr>"

section \<open>The loops, by what they append\<close>

lemma toEnv_envs_acc:
  "toEnv_envs kvs to =
     to @ map (\<lambda>(k, v). \<lparr>ev_Name = k, ev_Value = v, ev_ValueFrom = None\<rparr>)
            (filter (\<lambda>(k, v). k \<noteq> envAutomountServiceAccountToken) kvs)"
  by (induction kvs to rule: toEnv_envs.induct) simp_all

lemma toEnv_secrets_acc:
  "toEnv_secrets spec ss to = to @ toEnv_secrets spec ss []"
proof (induction ss arbitrary: to)
  case Nil
  show ?case by simp
next
  case (Cons s ss)
  show ?case
  proof (cases "LookupSecret spec (sv_Name s)")
    case None
    then show ?thesis using Cons.IH [of to] by simp
  next
    case (Some sec)
    then show ?thesis
      using Cons.IH [of "to @ [x]" for x] Cons.IH [of "[x]" for x] by simp
  qed
qed

lemma toEnv_secrets_append:
  "toEnv_secrets spec (xs @ ys) [] = toEnv_secrets spec xs [] @ toEnv_secrets spec ys []"
proof (induction xs)
  case Nil
  show ?case by simp
next
  case (Cons s xs)
  show ?case
  proof (cases "LookupSecret spec (sv_Name s)")
    case None
    then show ?thesis using Cons.IH by simp
  next
    case (Some sec)
    then show ?thesis
      using Cons.IH toEnv_secrets_acc [of spec "xs @ ys" "[x]" for x]
        toEnv_secrets_acc [of spec "xs" "[x]" for x] by simp
  qed
qed

lemma toConfigVolumes_loop_acc:
  "toConfigVolumes_loop spec ms to = to @ toConfigVolumes_loop spec ms []"
proof (induction ms arbitrary: to)
  case Nil
  show ?case by simp
next
  case (Cons m ms)
  show ?case
  proof (cases "LookupFile spec (fm_Name m)")
    case None
    then show ?thesis using Cons.IH [of to] by simp
  next
    case (Some fl)
    then show ?thesis
      using Cons.IH [of "to @ [x]" for x] Cons.IH [of "[x]" for x] by (simp add: Let_def)
  qed
qed

lemma toConfigVolumes_loop_append:
  "toConfigVolumes_loop spec (xs @ ys) [] =
     toConfigVolumes_loop spec xs [] @ toConfigVolumes_loop spec ys []"
proof (induction xs)
  case Nil
  show ?case by simp
next
  case (Cons m xs)
  show ?case
  proof (cases "LookupFile spec (fm_Name m)")
    case None
    then show ?thesis using Cons.IH by simp
  next
    case (Some fl)
    then show ?thesis
      using Cons.IH toConfigVolumes_loop_acc [of spec "xs @ ys" "[x]" for x]
        toConfigVolumes_loop_acc [of spec "xs" "[x]" for x] by (simp add: Let_def)
  qed
qed

lemma toConfigMounts_loop_acc:
  "toConfigMounts_loop spec ms to = to @ toConfigMounts_loop spec ms []"
proof (induction ms arbitrary: to)
  case Nil
  show ?case by simp
next
  case (Cons m ms)
  show ?case
  proof (cases "LookupFile spec (fm_Name m)")
    case None
    then show ?thesis using Cons.IH [of to] by simp
  next
    case (Some fl)
    then show ?thesis
      using Cons.IH [of "to @ [x]" for x] Cons.IH [of "[x]" for x] by (simp add: Let_def)
  qed
qed

lemma toConfigMounts_loop_append:
  "toConfigMounts_loop spec (xs @ ys) [] =
     toConfigMounts_loop spec xs [] @ toConfigMounts_loop spec ys []"
proof (induction xs)
  case Nil
  show ?case by simp
next
  case (Cons m xs)
  show ?case
  proof (cases "LookupFile spec (fm_Name m)")
    case None
    then show ?thesis using Cons.IH by simp
  next
    case (Some fl)
    then show ?thesis
      using Cons.IH toConfigMounts_loop_acc [of spec "xs @ ys" "[x]" for x]
        toConfigMounts_loop_acc [of spec "xs" "[x]" for x] by (simp add: Let_def)
  qed
qed

lemma toVolumeMounts_items_acc:
  "toVolumeMounts_items vol mount items to =
     to @ map (\<lambda>item. \<lparr>m_Name = md_UID (vol_Metadata vol) @ ''-'' @ si_Key item,
                         m_MountPath = vm_Path mount @ ''/'' @ si_Path item,
                         m_SubPath = si_Path item\<rparr>) items"
  by (induction items arbitrary: to) simp_all

lemma toVolumeMounts_items_from:
  "toVolumeMounts_items vol mount items to = to @ toVolumeMounts_items vol mount items []"
  using toVolumeMounts_items_acc [of vol mount items to]
    toVolumeMounts_items_acc [of vol mount items "[]"] by simp

lemma toVolumeMounts_loop_acc:
  "toVolumeMounts_loop spec ms to = to @ toVolumeMounts_loop spec ms []"
proof (induction ms arbitrary: to)
  case Nil
  show ?case by simp
next
  case (Cons m ms)
  show ?case
  proof (cases "LookupVolume spec (vm_Name m)")
    case None
    then show ?thesis using Cons.IH [of to] by simp
  next
    case (Some vol)
    show ?thesis
    proof (cases "vol_Secret vol")
      case None
      then show ?thesis
        using Some Cons.IH [of "to @ [x]" for x] Cons.IH [of "[x]" for x] by simp
    next
      case (Some secret)
      define its where "its = toVolumeMounts_items vol m (vs_Items secret) []"
      have "toVolumeMounts_items vol m (vs_Items secret) to = to @ its"
        unfolding its_def by (rule toVolumeMounts_items_from)
      then show ?thesis
        using \<open>LookupVolume spec (vm_Name m) = Some vol\<close> Some
          Cons.IH [of "to @ its"] Cons.IH [of its]
        by (simp add: its_def)
    qed
  qed
qed

lemma toVolumeMounts_loop_append:
  "toVolumeMounts_loop spec (xs @ ys) [] =
     toVolumeMounts_loop spec xs [] @ toVolumeMounts_loop spec ys []"
proof (induction xs)
  case Nil
  show ?case by simp
next
  case (Cons m xs)
  have one: "toVolumeMounts_loop spec (m # zs) [] =
          toVolumeMounts_loop spec [m] [] @ toVolumeMounts_loop spec zs []" for zs
  proof (cases "LookupVolume spec (vm_Name m)")
    case None
    then show ?thesis by simp
  next
    case (Some vol)
    then show ?thesis
      using toVolumeMounts_loop_acc [of spec zs "[x]" for x]
        toVolumeMounts_loop_acc [of spec zs "toVolumeMounts_items vol m its []" for its]
      by (cases "vol_Secret vol") simp_all
  qed
  show ?case using one [of "xs @ ys"] one [of xs] Cons.IH by simp
qed

lemma toSecretVolumes_items_acc:
  "toSecretVolumes_items spec vol secret items to =
     to @ toSecretVolumes_items spec vol secret items []"
proof (induction items arbitrary: to)
  case Nil
  show ?case by simp
next
  case (Cons item items)
  show ?case
  proof (cases "LookupSecret spec (md_Name (vol_Metadata vol) @ ''-'' @ vs_Name secret @ ''-'' @ si_Key item)")
    case None
    then show ?thesis using Cons.IH [of to] by simp
  next
    case (Some sec)
    then show ?thesis
      using Cons.IH [of "to @ [x]" for x] Cons.IH [of "[x]" for x] by (simp add: Let_def)
  qed
qed

lemma toHostPathVolume_guarded:
  "vol_EmptyDir vol \<noteq> None \<or> vol_HostPath vol \<noteq> None \<Longrightarrow> \<exists>v. toHostPathVolume spec vol = Inr v"
  by (auto simp: toHostPathVolume_def Let_def)

lemma toSecretVolumes_guarded:
  "vol_Secret vol \<noteq> None \<Longrightarrow> \<exists>vs. toSecretVolumes spec vol = Inr vs"
  by (auto simp: toSecretVolumes_def)

lemma toVolumes_loop_acc:
  "\<exists>vs. \<forall>to. toVolumes_loop spec ms to = Inr (to @ vs)"
proof (induction ms)
  case Nil
  show ?case by simp
next
  case (Cons m ms)
  then obtain vs where vs: "\<And>to. toVolumes_loop spec ms to = Inr (to @ vs)"
    by blast
  show ?case
  proof (cases "LookupVolume spec (vm_Name m)")
    case None
    then show ?thesis using vs by simp
  next
    case (Some vol)
    consider (host) "vol_EmptyDir vol \<noteq> None \<or> vol_HostPath vol \<noteq> None"
      | (secret) "\<not> (vol_EmptyDir vol \<noteq> None \<or> vol_HostPath vol \<noteq> None)" "vol_Secret vol \<noteq> None"
      | (other) "\<not> (vol_EmptyDir vol \<noteq> None \<or> vol_HostPath vol \<noteq> None)" "\<not> vol_Secret vol \<noteq> None"
      by blast
    then show ?thesis
    proof cases
      case host
      then obtain v where "toHostPathVolume spec vol = Inr v"
        using toHostPathVolume_guarded by blast
      then have "\<forall>to. toVolumes_loop spec (m # ms) to = Inr (to @ (v # vs))"
        using Some host vs by simp
      then show ?thesis by blast
    next
      case secret
      then obtain ws where "toSecretVolumes spec vol = Inr ws"
        using toSecretVolumes_guarded by blast
      then have "\<forall>to. toVolumes_loop spec (m # ms) to = Inr (to @ (ws @ vs))"
        using Some secret vs by simp
      then show ?thesis by blast
    next
      case other
      then have "\<forall>to. toVolumes_loop spec (m # ms) to = Inr (to @ vs)"
        using Some vs by simp
      then show ?thesis by blast
    qed
  qed
qed

lemma toVolumes_loop_total: "\<exists>vs. toVolumes_loop spec ms [] = Inr vs"
  using toVolumes_loop_acc [of spec ms] by blast

lemma toVolumes_loop_from:
  "toVolumes_loop spec ms [] = Inr vs \<Longrightarrow> toVolumes_loop spec ms to = Inr (to @ vs)"
  using toVolumes_loop_acc [of spec ms] by (metis append_Nil sum.inject(2))

lemma toVolumes_loop_bind:
  "toVolumes_loop spec (xs @ ys) to =
     (case toVolumes_loop spec xs to of Inl p \<Rightarrow> Inl p | Inr vs \<Rightarrow> toVolumes_loop spec ys vs)"
  by (induction xs arbitrary: to) (simp_all split: option.splits sum.splits)

lemma toVolumes_loop_append:
  assumes "toVolumes_loop spec xs [] = Inr vx" and "toVolumes_loop spec ys [] = Inr vy"
  shows "toVolumes_loop spec (xs @ ys) [] = Inr (vx @ vy)"
  using assms toVolumes_loop_from [of spec ys vy vx] by (simp add: toVolumes_loop_bind)

text \<open>The sample pipeline, unfolded.\<close>

lemmas ex_defs = ex_md_def ex_token_def ex_crt_def ex_netrc_def ex_cache_def ex_sock_def
  ex_items_def ex_tls_def ex_certs_def ex_spec_def ex_step_def

section \<open>The secret materializer\<close>

text \<open>
  Claim C6. For every secret, \<open>toSecret\<close> gives one cluster secret object: its name is the
  secret's UID, its type is \<open>Opaque\<close>, and its data mapping has exactly one entry, from
  that same UID to the secret's value. The object determines the UID and the value of the
  secret it was made from, so two secrets that differ in either are never one object.
\<close>

theorem toSecret_one_entry:
  "om_Name (ks_ObjectMeta (toSecret spec from)) = md_UID (sec_Metadata from)
   \<and> ks_Type (toSecret spec from) = ''Opaque''
   \<and> ks_StringData (toSecret spec from) = [md_UID (sec_Metadata from) \<mapsto> sec_Data from]
   \<and> dom (ks_StringData (toSecret spec from)) = {md_UID (sec_Metadata from)}
   \<and> ks_StringData (toSecret spec from) (md_UID (sec_Metadata from)) = Some (sec_Data from)
   \<and> (toSecret spec from = toSecret spec' other \<longrightarrow>
        md_UID (sec_Metadata other) = md_UID (sec_Metadata from) \<and> sec_Data other = sec_Data from)"
proof -
  have inj: "md_UID (sec_Metadata other) = md_UID (sec_Metadata from) \<and> sec_Data other = sec_Data from"
    if eq: "toSecret spec from = toSecret spec' other"
  proof -
    from eq have name: "om_Name (ks_ObjectMeta (toSecret spec from)) = om_Name (ks_ObjectMeta (toSecret spec' other))"
      by simp
    from eq have data: "ks_StringData (toSecret spec from) = ks_StringData (toSecret spec' other)"
      by simp
    from name have uid: "md_UID (sec_Metadata other) = md_UID (sec_Metadata from)"
      by (simp add: toSecret_def)
    from data have "[md_UID (sec_Metadata from) \<mapsto> sec_Data from] (md_UID (sec_Metadata from)) =
        [md_UID (sec_Metadata other) \<mapsto> sec_Data other] (md_UID (sec_Metadata from))"
      by (simp add: toSecret_def)
    with uid show ?thesis by simp
  qed
  have shape: "om_Name (ks_ObjectMeta (toSecret spec from)) = md_UID (sec_Metadata from)
      \<and> ks_Type (toSecret spec from) = ''Opaque''
      \<and> ks_StringData (toSecret spec from) = [md_UID (sec_Metadata from) \<mapsto> sec_Data from]
      \<and> dom (ks_StringData (toSecret spec from)) = {md_UID (sec_Metadata from)}
      \<and> ks_StringData (toSecret spec from) (md_UID (sec_Metadata from)) = Some (sec_Data from)"
    by (simp add: toSecret_def)
  from shape inj show ?thesis by blast
qed

text \<open>The sample secret \<open>token\<close>, and the two sample secrets kept apart.\<close>

theorem toSecret_one_entry_witness:
  "om_Name (ks_ObjectMeta (toSecret ex_spec ex_token)) = ''sec-1''
   \<and> ks_Type (toSecret ex_spec ex_token) = ''Opaque''
   \<and> dom (ks_StringData (toSecret ex_spec ex_token)) = {''sec-1''}
   \<and> ks_StringData (toSecret ex_spec ex_token) ''sec-1'' = Some ''s3cr3t''
   \<and> toSecret ex_spec ex_token \<noteq> toSecret ex_spec ex_crt"
  using toSecret_one_entry [of ex_spec ex_token ex_spec ex_crt]
  by (auto simp: ex_token_def ex_crt_def ex_md_def)

section \<open>The environment assembler\<close>

lemma toEnv_secrets_concat:
  "toEnv_secrets spec ss [] =
     concat (map (\<lambda>secret. case LookupSecret spec (sv_Name secret) of
                    None \<Rightarrow> []
                  | Some sec \<Rightarrow>
                      [\<lparr>ev_Name = sv_Env secret, ev_Value = [],
                        ev_ValueFrom = Some \<lparr>evs_FieldRef = None,
                          evs_SecretKeyRef = Some \<lparr>sks_Name = md_UID (sec_Metadata sec),
                            sks_Key = md_UID (sec_Metadata sec),
                            sks_Optional = Some True\<rparr>\<rparr>\<rparr>]) ss)"
proof (induction ss)
  case Nil
  show ?case by simp
next
  case (Cons s ss)
  show ?case
  proof (cases "LookupSecret spec (sv_Name s)")
    case None
    then show ?thesis using Cons.IH by simp
  next
    case (Some sec)
    then show ?thesis
      using Cons.IH toEnv_secrets_acc [of spec ss "[x]" for x] by simp
  qed
qed

text \<open>
  Claim C5. The environment list of a step is: one literal entry for every declared pair
  whose key is not \<open>PLUGIN_AUTOMOUNTSERVICEACCOUNTTOKEN\<close>, in the order the map is ranged
  over; then the entry \<open>KUBERNETES_NODE\<close>, which has no literal value but a field reference
  to \<open>spec.nodeName\<close>; then, for every secret mount whose name resolves, an entry named by
  the mount's variable name whose value is an optional secret-key reference with the
  secret's UID as object name and as key. An entry that carries the reserved name is never a
  literal.
\<close>

theorem toEnv_entries:
  "toEnv spec step =
     map (\<lambda>(k, v). \<lparr>ev_Name = k, ev_Value = v, ev_ValueFrom = None\<rparr>)
       (filter (\<lambda>(k, v). k \<noteq> envAutomountServiceAccountToken) (step_Envs step))
     @ [\<lparr>ev_Name = ''KUBERNETES_NODE'', ev_Value = [],
         ev_ValueFrom = Some \<lparr>evs_FieldRef = Some \<lparr>ofs_FieldPath = ''spec.nodeName''\<rparr>,
           evs_SecretKeyRef = None\<rparr>\<rparr>]
     @ concat (map (\<lambda>secret. case LookupSecret spec (sv_Name secret) of
                      None \<Rightarrow> []
                    | Some sec \<Rightarrow>
                        [\<lparr>ev_Name = sv_Env secret, ev_Value = [],
                          ev_ValueFrom = Some \<lparr>evs_FieldRef = None,
                            evs_SecretKeyRef = Some \<lparr>sks_Name = md_UID (sec_Metadata sec),
                              sks_Key = md_UID (sec_Metadata sec),
                              sks_Optional = Some True\<rparr>\<rparr>\<rparr>]) (step_Secrets step))
   \<and> (\<forall>e \<in> set (toEnv spec step).
         ev_Name e = envAutomountServiceAccountToken \<longrightarrow> ev_ValueFrom e \<noteq> None)"
proof -
  have shape: "toEnv spec step =
     map (\<lambda>(k, v). \<lparr>ev_Name = k, ev_Value = v, ev_ValueFrom = None\<rparr>)
       (filter (\<lambda>(k, v). k \<noteq> envAutomountServiceAccountToken) (step_Envs step))
     @ [\<lparr>ev_Name = ''KUBERNETES_NODE'', ev_Value = [],
         ev_ValueFrom = Some \<lparr>evs_FieldRef = Some \<lparr>ofs_FieldPath = ''spec.nodeName''\<rparr>,
           evs_SecretKeyRef = None\<rparr>\<rparr>]
     @ toEnv_secrets spec (step_Secrets step) []"
    unfolding toEnv_def Let_def
    by (subst toEnv_secrets_acc) (simp add: toEnv_envs_acc)
  have literal: "ev_Name e \<noteq> envAutomountServiceAccountToken"
    if "e \<in> set (map (\<lambda>(k, v). \<lparr>ev_Name = k, ev_Value = v, ev_ValueFrom = None\<rparr>)
       (filter (\<lambda>(k, v). k \<noteq> envAutomountServiceAccountToken) (step_Envs step)))" for e
    using that by auto
  have deferred: "ev_ValueFrom e \<noteq> None"
    if "e \<in> set (toEnv_secrets spec (step_Secrets step) [])" for e
    using that unfolding toEnv_secrets_concat by (auto split: option.splits)
  have "ev_ValueFrom e \<noteq> None"
    if "e \<in> set (toEnv spec step)" and "ev_Name e = envAutomountServiceAccountToken" for e
    using that literal [of e] deferred [of e] unfolding shape by auto
  then show ?thesis
    using shape toEnv_secrets_concat [of spec "step_Secrets step"] by simp
qed

text \<open>
  The sample step declares \<open>GOOS\<close> and the reserved key, and names the secrets \<open>token\<close>,
  which resolves, and \<open>absent\<close>, which does not.
\<close>

theorem toEnv_entries_witness:
  "toEnv ex_spec ex_step =
     [\<lparr>ev_Name = ''GOOS'', ev_Value = ''linux'', ev_ValueFrom = None\<rparr>,
      \<lparr>ev_Name = ''KUBERNETES_NODE'', ev_Value = [],
        ev_ValueFrom = Some \<lparr>evs_FieldRef = Some \<lparr>ofs_FieldPath = ''spec.nodeName''\<rparr>,
          evs_SecretKeyRef = None\<rparr>\<rparr>,
      \<lparr>ev_Name = ''TOKEN'', ev_Value = [],
        ev_ValueFrom = Some \<lparr>evs_FieldRef = None,
          evs_SecretKeyRef = Some \<lparr>sks_Name = ''sec-1'', sks_Key = ''sec-1'',
            sks_Optional = Some True\<rparr>\<rparr>\<rparr>]
   \<and> ''PLUGIN_AUTOMOUNTSERVICEACCOUNTTOKEN'' \<notin> ev_Name ` set (toEnv ex_spec ex_step)"
proof -
  have "toEnv ex_spec ex_step =
     [\<lparr>ev_Name = ''GOOS'', ev_Value = ''linux'', ev_ValueFrom = None\<rparr>,
      \<lparr>ev_Name = ''KUBERNETES_NODE'', ev_Value = [],
        ev_ValueFrom = Some \<lparr>evs_FieldRef = Some \<lparr>ofs_FieldPath = ''spec.nodeName''\<rparr>,
          evs_SecretKeyRef = None\<rparr>\<rparr>,
      \<lparr>ev_Name = ''TOKEN'', ev_Value = [],
        ev_ValueFrom = Some \<lparr>evs_FieldRef = None,
          evs_SecretKeyRef = Some \<lparr>sks_Name = ''sec-1'', sks_Key = ''sec-1'',
            sks_Optional = Some True\<rparr>\<rparr>\<rparr>]"
    using toEnv_entries [of ex_spec ex_step]
    by (simp add: ex_defs LookupSecret_def envAutomountServiceAccountToken_def)
  then show ?thesis by simp
qed

section \<open>The resource quantity converter\<close>

lemma toResources_limits:
  assumes "step_Resources step = Some r" and "res_Limits r = Some l"
  shows "rr_Limits (toResources step) =
     Some (\<lambda>k. if k = v1_ResourceCPU \<and> 0 < sint (ro_CPU l)
                then Some \<lparr>q_value = ro_CPU l, q_scale = - 3, q_Format = DecimalSI\<rparr>
                else if k = v1_ResourceMemory \<and> 0 < sint (ro_Memory l)
                then Some \<lparr>q_value = ro_Memory l, q_scale = 0, q_Format = BinarySI\<rparr>
                else None)"
proof -
  have "rr_Limits (toResources step) =
      Some (let limits = (if 0 <s ro_Memory l
                          then [v1_ResourceMemory \<mapsto> resource_NewQuantity (ro_Memory l) BinarySI]
                          else Map.empty)
            in if 0 <s ro_CPU l
               then limits(v1_ResourceCPU \<mapsto> resource_NewMilliQuantity (ro_CPU l) DecimalSI)
               else limits)"
    using assms by (cases "res_Requests r") (simp_all add: toResources_def Let_def)
  also have "\<dots> = Some (\<lambda>k. if k = v1_ResourceCPU \<and> 0 < sint (ro_CPU l)
                then Some \<lparr>q_value = ro_CPU l, q_scale = - 3, q_Format = DecimalSI\<rparr>
                else if k = v1_ResourceMemory \<and> 0 < sint (ro_Memory l)
                then Some \<lparr>q_value = ro_Memory l, q_scale = 0, q_Format = BinarySI\<rparr>
                else None)"
    by (simp add: Let_def fun_eq_iff word_sless_alt resource_NewQuantity_def
        resource_NewMilliQuantity_def)
  finally show ?thesis .
qed

lemma toResources_requests:
  assumes "step_Resources step = Some r" and "res_Requests r = Some q"
  shows "rr_Requests (toResources step) =
     Some (\<lambda>k. if k = v1_ResourceCPU \<and> 0 < sint (ro_CPU q)
                then Some \<lparr>q_value = ro_CPU q, q_scale = - 3, q_Format = DecimalSI\<rparr>
                else if k = v1_ResourceMemory \<and> 0 < sint (ro_Memory q)
                then Some \<lparr>q_value = ro_Memory q, q_scale = 0, q_Format = BinarySI\<rparr>
                else None)"
proof -
  have "rr_Requests (toResources step) =
      Some (let requests = (if 0 <s ro_Memory q
                          then [v1_ResourceMemory \<mapsto> resource_NewQuantity (ro_Memory q) BinarySI]
                          else Map.empty)
            in if 0 <s ro_CPU q
               then requests(v1_ResourceCPU \<mapsto> resource_NewMilliQuantity (ro_CPU q) DecimalSI)
               else requests)"
    using assms by (cases "res_Limits r") (simp_all add: toResources_def Let_def)
  also have "\<dots> = Some (\<lambda>k. if k = v1_ResourceCPU \<and> 0 < sint (ro_CPU q)
                then Some \<lparr>q_value = ro_CPU q, q_scale = - 3, q_Format = DecimalSI\<rparr>
                else if k = v1_ResourceMemory \<and> 0 < sint (ro_Memory q)
                then Some \<lparr>q_value = ro_Memory q, q_scale = 0, q_Format = BinarySI\<rparr>
                else None)"
    by (simp add: Let_def fun_eq_iff word_sless_alt resource_NewQuantity_def
        resource_NewMilliQuantity_def)
  finally show ?thesis .
qed

lemma toResources_absent:
  "(step_Resources step = None \<or> (step_Resources step = Some r \<and> res_Limits r = None) \<longrightarrow>
        rr_Limits (toResources step) = None)
   \<and> (step_Resources step = None \<or> (step_Resources step = Some r \<and> res_Requests r = None) \<longrightarrow>
        rr_Requests (toResources step) = None)"
  by (cases "step_Resources step"; cases "res_Limits r"; cases "res_Requests r")
    (simp_all add: toResources_def Let_def)

lemma resource_keys_differ: "v1_ResourceMemory \<noteq> v1_ResourceCPU"
  by (simp add: v1_ResourceMemory_def v1_ResourceCPU_def)

lemma resource_map_keys:
  "dom (\<lambda>k. if k = v1_ResourceCPU \<and> c then Some x
             else if k = v1_ResourceMemory \<and> m then Some y else None)
     \<subseteq> {v1_ResourceMemory, v1_ResourceCPU}"
  by (auto split: if_splits)

text \<open>
  Claim C4. When the step declares limits, the limits map is present, and it has an entry
  under \<open>memory\<close> iff the declared memory is strictly positive as a signed integer, and an
  entry under \<open>cpu\<close> iff the declared CPU is; it has no other key. The same holds for
  requests. A memory entry is the declared amount in the binary format at scale 0, a CPU
  entry is the declared amount in the decimal format at scale -3, that is, in milli-units.
  Where the step declares no resources, or no limits (requests), there is no limits
  (requests) map at all.
\<close>

theorem toResources_positive_only:
  "(step_Resources step = Some r \<and> res_Limits r = Some l \<longrightarrow>
      (\<exists>m. rr_Limits (toResources step) = Some m
         \<and> (m v1_ResourceMemory \<noteq> None) = (0 < sint (ro_Memory l))
         \<and> (m v1_ResourceCPU \<noteq> None) = (0 < sint (ro_CPU l))
         \<and> (0 < sint (ro_Memory l) \<longrightarrow>
              m v1_ResourceMemory = Some \<lparr>q_value = ro_Memory l, q_scale = 0, q_Format = BinarySI\<rparr>)
         \<and> (0 < sint (ro_CPU l) \<longrightarrow>
              m v1_ResourceCPU = Some \<lparr>q_value = ro_CPU l, q_scale = - 3, q_Format = DecimalSI\<rparr>)
         \<and> dom m \<subseteq> {v1_ResourceMemory, v1_ResourceCPU}))
   \<and> (step_Resources step = Some r \<and> res_Requests r = Some q \<longrightarrow>
      (\<exists>m. rr_Requests (toResources step) = Some m
         \<and> (m v1_ResourceMemory \<noteq> None) = (0 < sint (ro_Memory q))
         \<and> (m v1_ResourceCPU \<noteq> None) = (0 < sint (ro_CPU q))
         \<and> (0 < sint (ro_Memory q) \<longrightarrow>
              m v1_ResourceMemory = Some \<lparr>q_value = ro_Memory q, q_scale = 0, q_Format = BinarySI\<rparr>)
         \<and> (0 < sint (ro_CPU q) \<longrightarrow>
              m v1_ResourceCPU = Some \<lparr>q_value = ro_CPU q, q_scale = - 3, q_Format = DecimalSI\<rparr>)
         \<and> dom m \<subseteq> {v1_ResourceMemory, v1_ResourceCPU}))
   \<and> (step_Resources step = None \<or> (step_Resources step = Some r \<and> res_Limits r = None) \<longrightarrow>
        rr_Limits (toResources step) = None)
   \<and> (step_Resources step = None \<or> (step_Resources step = Some r \<and> res_Requests r = None) \<longrightarrow>
        rr_Requests (toResources step) = None)"
proof (intro conjI impI)
  assume "step_Resources step = Some r \<and> res_Limits r = Some l"
  then have eq: "rr_Limits (toResources step) =
     Some (\<lambda>k. if k = v1_ResourceCPU \<and> 0 < sint (ro_CPU l)
                then Some \<lparr>q_value = ro_CPU l, q_scale = - 3, q_Format = DecimalSI\<rparr>
                else if k = v1_ResourceMemory \<and> 0 < sint (ro_Memory l)
                then Some \<lparr>q_value = ro_Memory l, q_scale = 0, q_Format = BinarySI\<rparr>
                else None)"
    using toResources_limits [of step r l] by simp
  show "\<exists>m. rr_Limits (toResources step) = Some m
         \<and> (m v1_ResourceMemory \<noteq> None) = (0 < sint (ro_Memory l))
         \<and> (m v1_ResourceCPU \<noteq> None) = (0 < sint (ro_CPU l))
         \<and> (0 < sint (ro_Memory l) \<longrightarrow>
              m v1_ResourceMemory = Some \<lparr>q_value = ro_Memory l, q_scale = 0, q_Format = BinarySI\<rparr>)
         \<and> (0 < sint (ro_CPU l) \<longrightarrow>
              m v1_ResourceCPU = Some \<lparr>q_value = ro_CPU l, q_scale = - 3, q_Format = DecimalSI\<rparr>)
         \<and> dom m \<subseteq> {v1_ResourceMemory, v1_ResourceCPU}"
    unfolding eq
    by (rule exI, intro conjI, rule refl) (simp_all add: resource_keys_differ resource_keys_differ [symmetric] resource_map_keys)
next
  assume "step_Resources step = Some r \<and> res_Requests r = Some q"
  then have eq: "rr_Requests (toResources step) =
     Some (\<lambda>k. if k = v1_ResourceCPU \<and> 0 < sint (ro_CPU q)
                then Some \<lparr>q_value = ro_CPU q, q_scale = - 3, q_Format = DecimalSI\<rparr>
                else if k = v1_ResourceMemory \<and> 0 < sint (ro_Memory q)
                then Some \<lparr>q_value = ro_Memory q, q_scale = 0, q_Format = BinarySI\<rparr>
                else None)"
    using toResources_requests [of step r q] by simp
  show "\<exists>m. rr_Requests (toResources step) = Some m
         \<and> (m v1_ResourceMemory \<noteq> None) = (0 < sint (ro_Memory q))
         \<and> (m v1_ResourceCPU \<noteq> None) = (0 < sint (ro_CPU q))
         \<and> (0 < sint (ro_Memory q) \<longrightarrow>
              m v1_ResourceMemory = Some \<lparr>q_value = ro_Memory q, q_scale = 0, q_Format = BinarySI\<rparr>)
         \<and> (0 < sint (ro_CPU q) \<longrightarrow>
              m v1_ResourceCPU = Some \<lparr>q_value = ro_CPU q, q_scale = - 3, q_Format = DecimalSI\<rparr>)
         \<and> dom m \<subseteq> {v1_ResourceMemory, v1_ResourceCPU}"
    unfolding eq
    by (rule exI, intro conjI, rule refl) (simp_all add: resource_keys_differ resource_keys_differ [symmetric] resource_map_keys)
next
  assume "step_Resources step = None \<or> (step_Resources step = Some r \<and> res_Limits r = None)"
  then show "rr_Limits (toResources step) = None"
    using toResources_absent [of step r] by blast
next
  assume "step_Resources step = None \<or> (step_Resources step = Some r \<and> res_Requests r = None)"
  then show "rr_Requests (toResources step) = None"
    using toResources_absent [of step r] by blast
qed

text \<open>
  The sample step declares limits of 500 milli-CPU and 0 bytes of memory, and no requests:
  its limits map has the CPU entry alone.
\<close>

theorem toResources_positive_only_witness:
  "step_Resources ex_step = Some \<lparr>res_Limits = Some \<lparr>ro_CPU = 500, ro_Memory = 0\<rparr>, res_Requests = None\<rparr>
   \<and> (\<exists>m. rr_Limits (toResources ex_step) = Some m
         \<and> m ''memory'' = None
         \<and> m ''cpu'' = Some \<lparr>q_value = 500, q_scale = - 3, q_Format = DecimalSI\<rparr>
         \<and> dom m \<subseteq> {''memory'', ''cpu''})
   \<and> rr_Requests (toResources ex_step) = None"
proof -
  have res: "step_Resources ex_step =
      Some \<lparr>res_Limits = Some \<lparr>ro_CPU = 500, ro_Memory = 0\<rparr>, res_Requests = None\<rparr>"
    by (simp add: ex_step_def)
  show ?thesis
    using res toResources_positive_only [of ex_step
        "\<lparr>res_Limits = Some \<lparr>ro_CPU = 500, ro_Memory = 0\<rparr>, res_Requests = None\<rparr>"
        "\<lparr>ro_CPU = 500, ro_Memory = 0\<rparr>"]
    by (simp add: v1_ResourceMemory_def v1_ResourceCPU_def) blast
qed

section \<open>The pod assembler\<close>

lemma toPod_automount_map_of:
  "toPod_automount kvs a =
     (case map_of kvs envAutomountServiceAccountToken of
        None \<Rightarrow> a
      | Some v \<Rightarrow> fst (strconv_ParseBool v))"
  by (induction kvs a rule: toPod_automount.induct) simp_all

lemma ParseBool_value:
  "fst (strconv_ParseBool v) = (v \<in> set [''1'', ''t'', ''T'', ''TRUE'', ''true'', ''True''])"
  by (simp add: strconv_ParseBool_def)

lemma ParseBool_error:
  "(snd (strconv_ParseBool v) \<noteq> None) =
     (v \<notin> set [''1'', ''t'', ''T'', ''TRUE'', ''true'', ''True'',
                ''0'', ''f'', ''F'', ''FALSE'', ''false'', ''False''])"
  by (simp add: strconv_ParseBool_def)

lemma toVolumes_total: "\<exists>vs. toVolumes spec step = Inr vs"
  unfolding toVolumes_def by (rule toVolumes_loop_total)

text \<open>
  Claim C8. For every specification and step \<open>toPod\<close> returns a pod. The pod has the one
  image-pull secret \<open>docker-auth-config\<close> when the specification declares registry
  credentials, and none otherwise. Its auto-mount flag is set, and it is true exactly when
  the step's environment has the reserved key with a value that \<open>strconv.ParseBool\<close> reads
  as true (one of 1, t, T, TRUE, true, True): it is false when the key is absent and when
  parsing the value fails. Its restart policy is never, and it has exactly one container.
\<close>

theorem toPod_assembly:
  "\<exists>pod c. toPod spec step = Inr pod
     \<and> ps_ImagePullSecrets (pod_Spec pod) =
         (if dc_Auths (spec_Docker spec) = [] then [] else [\<lparr>lor_Name = ''docker-auth-config''\<rparr>])
     \<and> ps_AutomountServiceAccountToken (pod_Spec pod) =
         Some (case map_of (step_Envs step) envAutomountServiceAccountToken of
                 None \<Rightarrow> False
               | Some v \<Rightarrow> v \<in> set [''1'', ''t'', ''T'', ''TRUE'', ''true'', ''True''])
     \<and> (case map_of (step_Envs step) envAutomountServiceAccountToken of
           None \<Rightarrow> ps_AutomountServiceAccountToken (pod_Spec pod) = Some False
         | Some v \<Rightarrow>
             if snd (strconv_ParseBool v) \<noteq> None
             then ps_AutomountServiceAccountToken (pod_Spec pod) = Some False
             else ps_AutomountServiceAccountToken (pod_Spec pod) = Some (fst (strconv_ParseBool v)))
     \<and> ps_RestartPolicy (pod_Spec pod) = RestartPolicyNever
     \<and> ps_Containers (pod_Spec pod) = [c]"
proof -
  obtain vs where vs: "toVolumes spec step = Inr vs"
    using toVolumes_total by blast
  then obtain pod where pod: "toPod spec step = Inr pod"
    and pull: "ps_ImagePullSecrets (pod_Spec pod) =
         (if dc_Auths (spec_Docker spec) = [] then [] else [\<lparr>lor_Name = ''docker-auth-config''\<rparr>])"
    and auto: "ps_AutomountServiceAccountToken (pod_Spec pod) =
         Some (toPod_automount (step_Envs step) False)"
    and restart: "ps_RestartPolicy (pod_Spec pod) = RestartPolicyNever"
    and one: "length (ps_Containers (pod_Spec pod)) = 1"
    by (simp add: toPod_def Let_def)
  from one obtain c where c: "ps_Containers (pod_Spec pod) = [c]"
    by (cases "ps_Containers (pod_Spec pod)") auto
  have flag: "ps_AutomountServiceAccountToken (pod_Spec pod) =
         Some (case map_of (step_Envs step) envAutomountServiceAccountToken of
                 None \<Rightarrow> False
               | Some v \<Rightarrow> v \<in> set [''1'', ''t'', ''T'', ''TRUE'', ''true'', ''True''])"
    unfolding auto toPod_automount_map_of
    by (cases "map_of (step_Envs step) envAutomountServiceAccountToken")
      (simp_all add: ParseBool_value)
  have parse: "(case map_of (step_Envs step) envAutomountServiceAccountToken of
           None \<Rightarrow> ps_AutomountServiceAccountToken (pod_Spec pod) = Some False
         | Some v \<Rightarrow>
             if snd (strconv_ParseBool v) \<noteq> None
             then ps_AutomountServiceAccountToken (pod_Spec pod) = Some False
             else ps_AutomountServiceAccountToken (pod_Spec pod) = Some (fst (strconv_ParseBool v)))"
    unfolding auto toPod_automount_map_of
    by (cases "map_of (step_Envs step) envAutomountServiceAccountToken")
      (simp_all add: strconv_ParseBool_def)
  from pod pull flag parse restart c show ?thesis by blast
qed

text \<open>
  The sample: credentials are declared and the reserved key is \<open>true\<close>; with the value
  \<open>yes\<close>, which does not parse, and with no environment at all, the flag is false, and
  without credentials there is no pull secret.
\<close>

theorem toPod_assembly_witness:
  "(\<exists>pod c. toPod ex_spec ex_step = Inr pod
      \<and> ps_ImagePullSecrets (pod_Spec pod) = [\<lparr>lor_Name = ''docker-auth-config''\<rparr>]
      \<and> ps_AutomountServiceAccountToken (pod_Spec pod) = Some True
      \<and> ps_RestartPolicy (pod_Spec pod) = RestartPolicyNever
      \<and> ps_Containers (pod_Spec pod) = [c])
   \<and> (\<exists>pod. toPod (ex_spec\<lparr>spec_Docker := \<lparr>dc_Auths = []\<rparr>\<rparr>)
                (ex_step\<lparr>step_Envs := [(''PLUGIN_AUTOMOUNTSERVICEACCOUNTTOKEN'', ''yes'')]\<rparr>) = Inr pod
      \<and> ps_ImagePullSecrets (pod_Spec pod) = []
      \<and> ps_AutomountServiceAccountToken (pod_Spec pod) = Some False)
   \<and> (\<exists>pod. toPod ex_spec (ex_step\<lparr>step_Envs := []\<rparr>) = Inr pod
      \<and> ps_AutomountServiceAccountToken (pod_Spec pod) = Some False)"
proof -
  have auths: "dc_Auths (spec_Docker ex_spec) \<noteq> []"
    and envs: "map_of (step_Envs ex_step) envAutomountServiceAccountToken = Some ''true''"
    by (simp_all add: ex_spec_def ex_step_def envAutomountServiceAccountToken_def)
  have one: "\<exists>pod c. toPod ex_spec ex_step = Inr pod
      \<and> ps_ImagePullSecrets (pod_Spec pod) = [\<lparr>lor_Name = ''docker-auth-config''\<rparr>]
      \<and> ps_AutomountServiceAccountToken (pod_Spec pod) = Some True
      \<and> ps_RestartPolicy (pod_Spec pod) = RestartPolicyNever
      \<and> ps_Containers (pod_Spec pod) = [c]"
    using toPod_assembly [of ex_spec ex_step] auths envs by simp blast
  have two: "\<exists>pod. toPod (ex_spec\<lparr>spec_Docker := \<lparr>dc_Auths = []\<rparr>\<rparr>)
                (ex_step\<lparr>step_Envs := [(''PLUGIN_AUTOMOUNTSERVICEACCOUNTTOKEN'', ''yes'')]\<rparr>) = Inr pod
      \<and> ps_ImagePullSecrets (pod_Spec pod) = []
      \<and> ps_AutomountServiceAccountToken (pod_Spec pod) = Some False"
    using toPod_assembly [of "ex_spec\<lparr>spec_Docker := \<lparr>dc_Auths = []\<rparr>\<rparr>"
        "ex_step\<lparr>step_Envs := [(''PLUGIN_AUTOMOUNTSERVICEACCOUNTTOKEN'', ''yes'')]\<rparr>"]
    by (simp add: envAutomountServiceAccountToken_def) blast
  have three: "\<exists>pod. toPod ex_spec (ex_step\<lparr>step_Envs := []\<rparr>) = Inr pod
      \<and> ps_AutomountServiceAccountToken (pod_Spec pod) = Some False"
    using toPod_assembly [of ex_spec "ex_step\<lparr>step_Envs := []\<rparr>"]
    by simp blast
  from one two three show ?thesis by blast
qed

section \<open>The conversion to int32\<close>

lemma sint_int32:
  assumes "- (2 ^ 31) \<le> sint x" and "sint x < 2 ^ 31"
  shows "sint (int32 x) = sint x"
proof -
  have "sint (int32 x) = signed_take_bit 31 (uint x)"
    by (simp add: int32_def sint_uint unsigned_ucast_eq signed_take_bit_take_bit)
  also have "\<dots> = signed_take_bit 31 (signed_take_bit 63 (uint x))"
    by simp
  also have "\<dots> = signed_take_bit 31 (sint x)"
    by (simp add: sint_uint)
  also have "\<dots> = sint x"
    using assms by (simp add: signed_take_bit_int_eq_self)
  finally show ?thesis .
qed

section \<open>The port mapper and the service\<close>

lemma toService_ports_acc:
  "toService_ports ps ports =
     ports @ map (\<lambda>p. \<lparr>sp_Name = strconv_Itoa (port_Port p),
                        sp_Port = int32 (port_Port p),
                        sp_TargetPort = \<lparr>ios_Type = intstr_Int,
                          ios_IntVal = int32 (if port_Host p \<noteq> 0 then port_Host p else port_Port p),
                          ios_StrVal = []\<rparr>\<rparr>) ps"
  by (induction ps arbitrary: ports) (simp_all add: Let_def)

lemma toPorts_loop_acc:
  "toPorts_loop ps ports = ports @ map (\<lambda>p. \<lparr>cp_ContainerPort = int32 (port_Port p)\<rparr>) ps"
  by (induction ps arbitrary: ports) simp_all

lemma toPorts_map:
  "toPorts step = map (\<lambda>p. \<lparr>cp_ContainerPort = int32 (port_Port p)\<rparr>) (ds_Ports (step_Docker step))"
  by (simp add: toPorts_def toPorts_loop_acc)

lemma strings_Replace1_map:
  "strings_Replace1 s old new = map (\<lambda>c. if c = old then new else c) s"
  by (induction s) simp_all

text \<open>
  Claim C7. A step compiles to a service iff it declares at least one port, and the service
  is then the one \<open>toService\<close> builds; \<open>toService\<close> itself returns a service for every
  step, and the choice is its caller's. Its ports are the declared ports in order: the name
  is the decimal string of the declared port, the port is the declared port and the target
  port is the declared host port when that is nonzero and the declared port otherwise, both
  converted to the schema's \<open>int32\<close>, so that the service port is the container port that
  \<open>toPorts\<close> gives the pod. The service is of type ClusterIP, its selector is the single
  label \<open>io.drone.step.name\<close> bound to the step's name, and its name is the step's name with
  every underscore replaced by a hyphen. Where the declared ports and host ports fit in 32
  bits, as every port number does, the conversion changes no value.
\<close>

theorem toService_shape:
  "(stepService spec step \<noteq> None) = (ds_Ports (step_Docker step) \<noteq> [])
   \<and> stepService spec step =
       (if ds_Ports (step_Docker step) = [] then None else Some (toService spec step))
   \<and> ss_Ports (svc_Spec (toService spec step)) =
       map (\<lambda>p. \<lparr>sp_Name = strconv_Itoa (port_Port p),
                  sp_Port = int32 (port_Port p),
                  sp_TargetPort = \<lparr>ios_Type = intstr_Int,
                    ios_IntVal = int32 (if port_Host p \<noteq> 0 then port_Host p else port_Port p),
                    ios_StrVal = []\<rparr>\<rparr>) (ds_Ports (step_Docker step))
   \<and> map sp_Port (ss_Ports (svc_Spec (toService spec step))) = map cp_ContainerPort (toPorts step)
   \<and> ss_Type (svc_Spec (toService spec step)) = ServiceTypeClusterIP
   \<and> ss_Selector (svc_Spec (toService spec step)) = [''io.drone.step.name'' \<mapsto> md_Name (step_Metadata step)]
   \<and> om_Name (svc_ObjectMeta (toService spec step)) =
       map (\<lambda>c. if c = CHR ''_'' then CHR ''-'' else c) (md_Name (step_Metadata step))
   \<and> CHR ''_'' \<notin> set (om_Name (svc_ObjectMeta (toService spec step)))
   \<and> ((\<forall>p \<in> set (ds_Ports (step_Docker step)).
          - (2 ^ 31) \<le> sint (port_Port p) \<and> sint (port_Port p) < 2 ^ 31
          \<and> - (2 ^ 31) \<le> sint (port_Host p) \<and> sint (port_Host p) < 2 ^ 31) \<longrightarrow>
        map (\<lambda>sp. sint (sp_Port sp)) (ss_Ports (svc_Spec (toService spec step))) =
          map (\<lambda>p. sint (port_Port p)) (ds_Ports (step_Docker step))
        \<and> map (\<lambda>sp. sint (ios_IntVal (sp_TargetPort sp))) (ss_Ports (svc_Spec (toService spec step))) =
          map (\<lambda>p. if port_Host p \<noteq> 0 then sint (port_Host p) else sint (port_Port p))
            (ds_Ports (step_Docker step)))"
proof -
  have emitted: "(stepService spec step \<noteq> None) = (ds_Ports (step_Docker step) \<noteq> [])"
    and which: "stepService spec step =
       (if ds_Ports (step_Docker step) = [] then None else Some (toService spec step))"
    by (simp_all add: stepService_def)
  have ports: "ss_Ports (svc_Spec (toService spec step)) =
       map (\<lambda>p. \<lparr>sp_Name = strconv_Itoa (port_Port p),
                  sp_Port = int32 (port_Port p),
                  sp_TargetPort = \<lparr>ios_Type = intstr_Int,
                    ios_IntVal = int32 (if port_Host p \<noteq> 0 then port_Host p else port_Port p),
                    ios_StrVal = []\<rparr>\<rparr>) (ds_Ports (step_Docker step))"
    by (simp add: toService_def Let_def toService_ports_acc)
  have same: "map sp_Port (ss_Ports (svc_Spec (toService spec step))) =
      map cp_ContainerPort (toPorts step)"
    unfolding ports toPorts_map by (simp add: comp_def)
  have kind: "ss_Type (svc_Spec (toService spec step)) = ServiceTypeClusterIP"
    and selector: "ss_Selector (svc_Spec (toService spec step)) =
      [''io.drone.step.name'' \<mapsto> md_Name (step_Metadata step)]"
    by (simp_all add: toService_def Let_def)
  have name: "om_Name (svc_ObjectMeta (toService spec step)) =
       map (\<lambda>c. if c = CHR ''_'' then CHR ''-'' else c) (md_Name (step_Metadata step))"
    by (simp add: toService_def Let_def toDNS_def strings_Replace1_map)
  have clean: "CHR ''_'' \<notin> set (om_Name (svc_ObjectMeta (toService spec step)))"
    unfolding name by auto
  have fits: "map (\<lambda>sp. sint (sp_Port sp)) (ss_Ports (svc_Spec (toService spec step))) =
          map (\<lambda>p. sint (port_Port p)) (ds_Ports (step_Docker step))
        \<and> map (\<lambda>sp. sint (ios_IntVal (sp_TargetPort sp))) (ss_Ports (svc_Spec (toService spec step))) =
          map (\<lambda>p. if port_Host p \<noteq> 0 then sint (port_Host p) else sint (port_Port p))
            (ds_Ports (step_Docker step))"
    if "\<forall>p \<in> set (ds_Ports (step_Docker step)).
          - (2 ^ 31) \<le> sint (port_Port p) \<and> sint (port_Port p) < 2 ^ 31
          \<and> - (2 ^ 31) \<le> sint (port_Host p) \<and> sint (port_Host p) < 2 ^ 31"
    unfolding ports using that by (simp add: comp_def sint_int32)
  from emitted which ports same kind selector name clean fits show ?thesis by blast
qed

text \<open>
  The sample step \<open>build_and_test\<close> declares the port 8080 with host port 0; with no port
  declared there is no service; with host port 9090 the target port is 9090.
\<close>

theorem toService_shape_witness:
  "(\<exists>svc. stepService ex_spec ex_step = Some svc
      \<and> ss_Ports (svc_Spec svc) =
          [\<lparr>sp_Name = ''8080'', sp_Port = 8080,
            sp_TargetPort = \<lparr>ios_Type = intstr_Int, ios_IntVal = 8080, ios_StrVal = []\<rparr>\<rparr>]
      \<and> ss_Type (svc_Spec svc) = ServiceTypeClusterIP
      \<and> ss_Selector (svc_Spec svc) = [''io.drone.step.name'' \<mapsto> ''build_and_test'']
      \<and> om_Name (svc_ObjectMeta svc) = ''build-and-test'')
   \<and> stepService ex_spec (ex_step\<lparr>step_Docker := (step_Docker ex_step)\<lparr>ds_Ports := []\<rparr>\<rparr>) = None
   \<and> map sp_TargetPort (ss_Ports (svc_Spec (toService ex_spec
        (ex_step\<lparr>step_Docker := (step_Docker ex_step)\<lparr>ds_Ports := [\<lparr>port_Port = 8080, port_Host = 9090\<rparr>]\<rparr>\<rparr>)))) =
       [\<lparr>ios_Type = intstr_Int, ios_IntVal = 9090, ios_StrVal = []\<rparr>]
   \<and> map (\<lambda>sp. sint (sp_Port sp)) (ss_Ports (svc_Spec (toService ex_spec ex_step))) = [8080]
   \<and> map (\<lambda>sp. sint (ios_IntVal (sp_TargetPort sp))) (ss_Ports (svc_Spec (toService ex_spec ex_step))) = [8080]"
proof -
  have ports: "ds_Ports (step_Docker ex_step) = [\<lparr>port_Port = 8080, port_Host = 0\<rparr>]"
    and name: "md_Name (step_Metadata ex_step) = ''build_and_test''"
    by (simp_all add: ex_step_def ex_md_def)
  have itoa: "strconv_Itoa 8080 = ''8080''"
    by (simp add: strconv_Itoa_def digits.simps)
  have one: "\<exists>svc. stepService ex_spec ex_step = Some svc
      \<and> ss_Ports (svc_Spec svc) =
          [\<lparr>sp_Name = ''8080'', sp_Port = 8080,
            sp_TargetPort = \<lparr>ios_Type = intstr_Int, ios_IntVal = 8080, ios_StrVal = []\<rparr>\<rparr>]
      \<and> ss_Type (svc_Spec svc) = ServiceTypeClusterIP
      \<and> ss_Selector (svc_Spec svc) = [''io.drone.step.name'' \<mapsto> ''build_and_test'']
      \<and> om_Name (svc_ObjectMeta svc) = ''build-and-test''"
    using toService_shape [of ex_spec ex_step] ports name itoa
    by (simp add: int32_def)
  have two: "stepService ex_spec (ex_step\<lparr>step_Docker := (step_Docker ex_step)\<lparr>ds_Ports := []\<rparr>\<rparr>) = None"
    using toService_shape [of ex_spec "ex_step\<lparr>step_Docker := (step_Docker ex_step)\<lparr>ds_Ports := []\<rparr>\<rparr>"]
    by simp
  have three: "map sp_TargetPort (ss_Ports (svc_Spec (toService ex_spec
        (ex_step\<lparr>step_Docker := (step_Docker ex_step)\<lparr>ds_Ports := [\<lparr>port_Port = 8080, port_Host = 9090\<rparr>]\<rparr>\<rparr>)))) =
       [\<lparr>ios_Type = intstr_Int, ios_IntVal = 9090, ios_StrVal = []\<rparr>]"
    using toService_shape [of ex_spec
        "ex_step\<lparr>step_Docker := (step_Docker ex_step)\<lparr>ds_Ports := [\<lparr>port_Port = 8080, port_Host = 9090\<rparr>]\<rparr>\<rparr>"]
    by (simp add: int32_def)
  have four: "map (\<lambda>sp. sint (sp_Port sp)) (ss_Ports (svc_Spec (toService ex_spec ex_step))) = [8080]
      \<and> map (\<lambda>sp. sint (ios_IntVal (sp_TargetPort sp))) (ss_Ports (svc_Spec (toService ex_spec ex_step))) = [8080]"
    using toService_shape [of ex_spec ex_step] ports by (simp add: int32_def)
  from one two three four show ?thesis by blast
qed

section \<open>Config volumes\<close>

lemma toConfigVolumes_at:
  assumes "LookupFile spec (fm_Name mount) = Some fl"
  shows "toConfigVolumes_loop spec (pre @ mount # post) [] =
     toConfigVolumes_loop spec pre []
     @ [\<lparr>v_Name = md_UID (file_Metadata fl), v_HostPath = None, v_Secret = None,
         v_ConfigMap = Some \<lparr>cm_Name = md_UID (file_Metadata fl), cm_Optional = Some False,
           cm_Items = [\<lparr>ktp_Key = md_UID (file_Metadata fl),
                        ktp_Path = path_Base (fm_Path mount),
                        ktp_Mode = Some (int32 (fm_Mode mount))\<rparr>]\<rparr>\<rparr>]
     @ toConfigVolumes_loop spec post []"
  using assms toConfigVolumes_loop_acc [of spec post "[x]" for x]
  by (simp add: toConfigVolumes_loop_append Let_def)

lemma toConfigMounts_at:
  assumes "LookupFile spec (fm_Name mount) = Some fl"
  shows "toConfigMounts_loop spec (pre @ mount # post) [] =
     toConfigMounts_loop spec pre []
     @ [\<lparr>m_Name = md_UID (file_Metadata fl), m_MountPath = path_Dir (fm_Path mount),
         m_SubPath = []\<rparr>]
     @ toConfigMounts_loop spec post []"
  using assms toConfigMounts_loop_acc [of spec post "[x]" for x]
  by (simp add: toConfigMounts_loop_append Let_def)

text \<open>
  Claim C9. Let a file mount of the step resolve to a file. Between what the mounts before
  it and the mounts after it produce, \<open>toConfigVolumes\<close> produces exactly one volume: it is
  named by the file's UID, its source is the config map named by the file's UID, and it
  projects the one item whose key is the file's UID, whose path is \<open>path.Base\<close> of the
  declared mount path and whose mode is the declared mode (converted to the schema's
  \<open>int32\<close>). At the same place \<open>toConfigMounts\<close> produces exactly one mount: it is named by
  the file's UID and its mount path is \<open>path.Dir\<close> of the declared mount path. A declared
  mode that fits in 32 bits, as every file mode does, is not changed by the conversion.
\<close>

theorem file_mount_volume_and_mount:
  assumes "LookupFile spec (fm_Name mount) = Some fl"
    and "step_Files step = pre @ mount # post"
  shows "toConfigVolumes spec step =
       toConfigVolumes spec (step\<lparr>step_Files := pre\<rparr>)
       @ [\<lparr>v_Name = md_UID (file_Metadata fl), v_HostPath = None, v_Secret = None,
           v_ConfigMap = Some \<lparr>cm_Name = md_UID (file_Metadata fl), cm_Optional = Some False,
             cm_Items = [\<lparr>ktp_Key = md_UID (file_Metadata fl),
                          ktp_Path = path_Base (fm_Path mount),
                          ktp_Mode = Some (int32 (fm_Mode mount))\<rparr>]\<rparr>\<rparr>]
       @ toConfigVolumes spec (step\<lparr>step_Files := post\<rparr>)
     \<and> toConfigMounts spec step =
       toConfigMounts spec (step\<lparr>step_Files := pre\<rparr>)
       @ [\<lparr>m_Name = md_UID (file_Metadata fl), m_MountPath = path_Dir (fm_Path mount),
           m_SubPath = []\<rparr>]
       @ toConfigMounts spec (step\<lparr>step_Files := post\<rparr>)
     \<and> (- (2 ^ 31) \<le> sint (fm_Mode mount) \<and> sint (fm_Mode mount) < 2 ^ 31 \<longrightarrow>
          sint (int32 (fm_Mode mount)) = sint (fm_Mode mount))"
  using assms toConfigVolumes_at [of spec mount fl pre post]
    toConfigMounts_at [of spec mount fl pre post]
  by (simp add: toConfigVolumes_def toConfigMounts_def sint_int32)

text \<open>
  The sample step mounts the file \<open>netrc\<close> at \<open>/root/.netrc\<close> with mode 0600 (384), and
  then a file that the specification does not have: one volume projecting \<open>.netrc\<close>, one
  mount at \<open>/root\<close>.
\<close>

theorem file_mount_volume_and_mount_witness:
  "LookupFile ex_spec (fm_Name \<lparr>fm_Name = ''netrc'', fm_Path = ''/root/.netrc'', fm_Mode = 384\<rparr>) = Some ex_netrc
   \<and> step_Files ex_step = [] @ \<lparr>fm_Name = ''netrc'', fm_Path = ''/root/.netrc'', fm_Mode = 384\<rparr>
        # [\<lparr>fm_Name = ''gone'', fm_Path = ''/root/gone'', fm_Mode = 384\<rparr>]
   \<and> toConfigVolumes ex_spec ex_step =
       [\<lparr>v_Name = ''file-1'', v_HostPath = None, v_Secret = None,
         v_ConfigMap = Some \<lparr>cm_Name = ''file-1'', cm_Optional = Some False,
           cm_Items = [\<lparr>ktp_Key = ''file-1'', ktp_Path = ''.netrc'', ktp_Mode = Some 384\<rparr>]\<rparr>\<rparr>]
   \<and> toConfigMounts ex_spec ex_step =
       [\<lparr>m_Name = ''file-1'', m_MountPath = ''/root'', m_SubPath = []\<rparr>]"
proof -
  have found: "LookupFile ex_spec (fm_Name \<lparr>fm_Name = ''netrc'', fm_Path = ''/root/.netrc'', fm_Mode = 384\<rparr>) = Some ex_netrc"
    by (simp add: LookupFile_def ex_spec_def ex_netrc_def ex_md_def)
  have files: "step_Files ex_step = [] @ \<lparr>fm_Name = ''netrc'', fm_Path = ''/root/.netrc'', fm_Mode = 384\<rparr>
        # [\<lparr>fm_Name = ''gone'', fm_Path = ''/root/gone'', fm_Mode = 384\<rparr>]"
    by (simp add: ex_step_def)
  have gone: "LookupFile ex_spec ''gone'' = None"
    by (simp add: LookupFile_def ex_spec_def ex_netrc_def ex_md_def)
  have base: "path_Base ''/root/.netrc'' = ''.netrc''"
    by (simp add: path_Base_def)
  have dir: "path_Dir ''/root/.netrc'' = ''/root''"
    by (simp add: path_Dir_def path_Clean_def clean_elem_def)
  have uid: "md_UID (file_Metadata ex_netrc) = ''file-1''"
    by (simp add: ex_netrc_def ex_md_def)
  show ?thesis
    using file_mount_volume_and_mount [OF found files] found files gone base dir uid
    by (simp add: toConfigVolumes_def toConfigMounts_def int32_def)
qed

section \<open>Host-path volumes\<close>

lemma split_slash_plain: "CHR ''/'' \<notin> set s \<Longrightarrow> split_slash s = [s]"
  by (induction s) auto

lemma split_slash_append:
  "CHR ''/'' \<notin> set a \<Longrightarrow> split_slash (a @ CHR ''/'' # b) = a # split_slash b"
  by (induction a) auto

lemma clean_elem_plain:
  "e \<noteq> [] \<Longrightarrow> e \<noteq> ''.'' \<Longrightarrow> e \<noteq> ''..'' \<Longrightarrow> clean_elem rooted out e = out @ [e]"
  by (simp add: clean_elem_def)

lemma filepath_Join_tmp_drone:
  assumes ns: "ns \<noteq> []" "CHR ''/'' \<notin> set ns" "ns \<noteq> ''.''" "ns \<noteq> ''..''"
    and uid: "uid \<noteq> []" "CHR ''/'' \<notin> set uid" "uid \<noteq> ''.''" "uid \<noteq> ''..''"
  shows "filepath_Join [''/tmp'', ''drone'', ns, uid] = ''/tmp/drone/'' @ ns @ ''/'' @ uid"
proof -
  have joined: "strings_Join [''/tmp'', ''drone'', ns, uid] ''/'' = ''/tmp/drone/'' @ ns @ ''/'' @ uid"
    by simp
  have "split_slash (ns @ CHR ''/'' # uid) = [ns, uid]"
    using ns(2) uid(2) by (simp add: split_slash_append split_slash_plain)
  then have cut: "split_slash (''/tmp/drone/'' @ ns @ ''/'' @ uid) = [[], ''tmp'', ''drone'', ns, uid]"
    by simp
  have kept: "foldl (clean_elem True) [] [[], ''tmp'', ''drone'', ns, uid] = [''tmp'', ''drone'', ns, uid]"
    using ns(1,3,4) uid(1,3,4) by (simp add: clean_elem_plain) (simp add: clean_elem_def)
  have "path_Clean (''/tmp/drone/'' @ ns @ ''/'' @ uid) = ''/tmp/drone/'' @ ns @ ''/'' @ uid"
    unfolding path_Clean_def Let_def cut
    using kept by simp
  then show ?thesis
    using joined by simp
qed

lemma toVolumes_loop_at:
  assumes "toVolumes_loop spec pre [] = Inr a"
    and "toVolumes_loop spec [m] [] = Inr c"
    and "toVolumes_loop spec post [] = Inr b"
  shows "toVolumes_loop spec (pre @ m # post) [] = Inr (a @ c @ b)"
  using toVolumes_loop_append [OF assms(1) toVolumes_loop_append [OF assms(2) assms(3)]]
  by simp

lemma toHostPathVolume_EmptyDir:
  "vol_EmptyDir vol \<noteq> None \<Longrightarrow>
   toHostPathVolume spec vol =
     Inr \<lparr>v_Name = md_UID (vol_Metadata vol),
          v_HostPath = Some \<lparr>hps_Path = filepath_Join [''/tmp'', ''drone'',
                                  md_Namespace (spec_Metadata spec), md_UID (vol_Metadata vol)],
                              hps_Type = Some HostPathDirectoryOrCreate\<rparr>,
          v_Secret = None, v_ConfigMap = None\<rparr>"
  by (simp add: toHostPathVolume_def Let_def del: filepath_Join.simps)

lemma toHostPathVolume_HostPath:
  "vol_EmptyDir vol = None \<Longrightarrow> vol_HostPath vol = Some hostPath \<Longrightarrow>
   toHostPathVolume spec vol =
     Inr \<lparr>v_Name = md_UID (vol_Metadata vol),
          v_HostPath = Some \<lparr>hps_Path = hp_Path hostPath,
                              hps_Type = Some HostPathDirectoryOrCreate\<rparr>,
          v_Secret = None, v_ConfigMap = None\<rparr>"
  by (simp add: toHostPathVolume_def Let_def)

text \<open>
  Claim C2. For a volume with \<open>EmptyDir\<close> set, \<open>toHostPathVolume\<close> gives a host-path volume
  whose path is \<open>filepath.Join("/tmp", "drone", namespace of the specification, UID of the
  volume)\<close>; for a volume with \<open>HostPath\<close> set (and no \<open>EmptyDir\<close>) the path is the declared
  one, unchanged; in both cases the volume is named by the volume's UID and its type is
  directory-or-create. A mount of the step that resolves to such a volume adds exactly
  this volume to what \<open>toVolumes\<close> returns, between the volumes of the mounts before and
  after it. When namespace and UID are plain path elements (not empty, without a slash, not
  \<open>.\<close> or \<open>..\<close>) the joined path is \<open>/tmp/drone/namespace/UID\<close>, and for \<open>ns1\<close> and
  \<open>vol-abc\<close> it is \<open>/tmp/drone/ns1/vol-abc\<close>.
\<close>

theorem hostpath_volume_path:
  "(vol_EmptyDir vol \<noteq> None \<longrightarrow>
      toHostPathVolume spec vol =
        Inr \<lparr>v_Name = md_UID (vol_Metadata vol),
             v_HostPath = Some \<lparr>hps_Path = filepath_Join [''/tmp'', ''drone'',
                                     md_Namespace (spec_Metadata spec), md_UID (vol_Metadata vol)],
                                 hps_Type = Some HostPathDirectoryOrCreate\<rparr>,
             v_Secret = None, v_ConfigMap = None\<rparr>)
   \<and> (vol_EmptyDir vol = None \<and> vol_HostPath vol = Some hostPath \<longrightarrow>
      toHostPathVolume spec vol =
        Inr \<lparr>v_Name = md_UID (vol_Metadata vol),
             v_HostPath = Some \<lparr>hps_Path = hp_Path hostPath,
                                 hps_Type = Some HostPathDirectoryOrCreate\<rparr>,
             v_Secret = None, v_ConfigMap = None\<rparr>)
   \<and> ((vol_EmptyDir vol \<noteq> None \<or> vol_HostPath vol \<noteq> None)
        \<and> LookupVolume spec (vm_Name mount) = Some vol
        \<and> step_Volumes step = pre @ mount # post \<longrightarrow>
      (\<exists>before v after.
          toVolumes spec (step\<lparr>step_Volumes := pre\<rparr>) = Inr before
        \<and> toHostPathVolume spec vol = Inr v
        \<and> toVolumes spec (step\<lparr>step_Volumes := post\<rparr>) = Inr after
        \<and> toVolumes spec step = Inr (before @ [v] @ after)))
   \<and> (ns \<noteq> [] \<and> CHR ''/'' \<notin> set ns \<and> ns \<noteq> ''.'' \<and> ns \<noteq> ''..''
        \<and> uid \<noteq> [] \<and> CHR ''/'' \<notin> set uid \<and> uid \<noteq> ''.'' \<and> uid \<noteq> ''..'' \<longrightarrow>
      filepath_Join [''/tmp'', ''drone'', ns, uid] = ''/tmp/drone/'' @ ns @ ''/'' @ uid)
   \<and> filepath_Join [''/tmp'', ''drone'', ''ns1'', ''vol-abc''] = ''/tmp/drone/ns1/vol-abc''"
proof (intro conjI impI)
  assume "vol_EmptyDir vol \<noteq> None"
  then show "toHostPathVolume spec vol =
        Inr \<lparr>v_Name = md_UID (vol_Metadata vol),
             v_HostPath = Some \<lparr>hps_Path = filepath_Join [''/tmp'', ''drone'',
                                     md_Namespace (spec_Metadata spec), md_UID (vol_Metadata vol)],
                                 hps_Type = Some HostPathDirectoryOrCreate\<rparr>,
             v_Secret = None, v_ConfigMap = None\<rparr>"
    by (rule toHostPathVolume_EmptyDir)
next
  assume "vol_EmptyDir vol = None \<and> vol_HostPath vol = Some hostPath"
  then show "toHostPathVolume spec vol =
        Inr \<lparr>v_Name = md_UID (vol_Metadata vol),
             v_HostPath = Some \<lparr>hps_Path = hp_Path hostPath,
                                 hps_Type = Some HostPathDirectoryOrCreate\<rparr>,
             v_Secret = None, v_ConfigMap = None\<rparr>"
    by (simp add: toHostPathVolume_HostPath)
next
  assume a: "(vol_EmptyDir vol \<noteq> None \<or> vol_HostPath vol \<noteq> None)
        \<and> LookupVolume spec (vm_Name mount) = Some vol
        \<and> step_Volumes step = pre @ mount # post"
  obtain before where before: "toVolumes_loop spec pre [] = Inr before"
    using toVolumes_loop_total by blast
  obtain after where after: "toVolumes_loop spec post [] = Inr after"
    using toVolumes_loop_total by blast
  obtain v where v: "toHostPathVolume spec vol = Inr v"
    using a toHostPathVolume_guarded by blast
  have "toVolumes_loop spec [mount] [] = Inr [v]"
    using a v by simp
  then have "toVolumes_loop spec (pre @ mount # post) [] = Inr (before @ [v] @ after)"
    using toVolumes_loop_at [OF before _ after] by simp
  then show "\<exists>before v after.
          toVolumes spec (step\<lparr>step_Volumes := pre\<rparr>) = Inr before
        \<and> toHostPathVolume spec vol = Inr v
        \<and> toVolumes spec (step\<lparr>step_Volumes := post\<rparr>) = Inr after
        \<and> toVolumes spec step = Inr (before @ [v] @ after)"
    using a before after v by (simp add: toVolumes_def)
next
  assume "ns \<noteq> [] \<and> CHR ''/'' \<notin> set ns \<and> ns \<noteq> ''.'' \<and> ns \<noteq> ''..''
        \<and> uid \<noteq> [] \<and> CHR ''/'' \<notin> set uid \<and> uid \<noteq> ''.'' \<and> uid \<noteq> ''..''"
  then show "filepath_Join [''/tmp'', ''drone'', ns, uid] = ''/tmp/drone/'' @ ns @ ''/'' @ uid"
    using filepath_Join_tmp_drone [of ns uid] by blast
next
  show "filepath_Join [''/tmp'', ''drone'', ''ns1'', ''vol-abc''] = ''/tmp/drone/ns1/vol-abc''"
    by (simp add: path_Clean_def clean_elem_def)
qed

text \<open>
  In the sample pipeline, of namespace \<open>ns1\<close>, the volume \<open>cache\<close> has \<open>EmptyDir\<close> set and
  the UID \<open>vol-abc\<close>, and the volume \<open>sock\<close> declares a host path. The step mounts \<open>cache\<close>
  first, so the volume list starts with its host-path volume.
\<close>

theorem hostpath_volume_path_witness:
  "toHostPathVolume ex_spec ex_cache =
     Inr \<lparr>v_Name = ''vol-abc'',
          v_HostPath = Some \<lparr>hps_Path = ''/tmp/drone/ns1/vol-abc'',
                              hps_Type = Some HostPathDirectoryOrCreate\<rparr>,
          v_Secret = None, v_ConfigMap = None\<rparr>
   \<and> toHostPathVolume ex_spec ex_sock =
     Inr \<lparr>v_Name = ''vol-def'',
          v_HostPath = Some \<lparr>hps_Path = ''/var/run/docker.sock'',
                              hps_Type = Some HostPathDirectoryOrCreate\<rparr>,
          v_Secret = None, v_ConfigMap = None\<rparr>
   \<and> (\<exists>after. toVolumes ex_spec ex_step =
         Inr ([] @ [\<lparr>v_Name = ''vol-abc'',
                     v_HostPath = Some \<lparr>hps_Path = ''/tmp/drone/ns1/vol-abc'',
                                         hps_Type = Some HostPathDirectoryOrCreate\<rparr>,
                     v_Secret = None, v_ConfigMap = None\<rparr>] @ after))"
proof -
  have cache: "vol_EmptyDir ex_cache \<noteq> None" "md_UID (vol_Metadata ex_cache) = ''vol-abc''"
    and sock: "vol_EmptyDir ex_sock = None"
      "vol_HostPath ex_sock = Some \<lparr>hp_Path = ''/var/run/docker.sock''\<rparr>"
      "md_UID (vol_Metadata ex_sock) = ''vol-def''"
    and ns: "md_Namespace (spec_Metadata ex_spec) = ''ns1''"
    and found: "LookupVolume ex_spec (vm_Name \<lparr>vm_Name = ''cache'', vm_Path = ''/cache''\<rparr>) = Some ex_cache"
    and vols: "step_Volumes ex_step = [] @ \<lparr>vm_Name = ''cache'', vm_Path = ''/cache''\<rparr> #
        [\<lparr>vm_Name = ''certs'', vm_Path = ''/etc/certs''\<rparr>, \<lparr>vm_Name = ''nowhere'', vm_Path = ''/mnt''\<rparr>]"
    by (simp_all add: ex_cache_def ex_sock_def ex_md_def ex_spec_def ex_step_def LookupVolume_def)
  note cache_inst = hostpath_volume_path [of ex_cache ex_spec "\<lparr>hp_Path = ''/var/run/docker.sock''\<rparr>"
      "\<lparr>vm_Name = ''cache'', vm_Path = ''/cache''\<rparr>" ex_step "[]"
      "[\<lparr>vm_Name = ''certs'', vm_Path = ''/etc/certs''\<rparr>, \<lparr>vm_Name = ''nowhere'', vm_Path = ''/mnt''\<rparr>]"
      "''ns1''" "''vol-abc''"]
  note sock_inst = hostpath_volume_path [of ex_sock ex_spec "\<lparr>hp_Path = ''/var/run/docker.sock''\<rparr>"
      "\<lparr>vm_Name = ''cache'', vm_Path = ''/cache''\<rparr>" ex_step "[]"
      "[\<lparr>vm_Name = ''certs'', vm_Path = ''/etc/certs''\<rparr>, \<lparr>vm_Name = ''nowhere'', vm_Path = ''/mnt''\<rparr>]"
      "''ns1''" "''vol-abc''"]
  have path: "filepath_Join [''/tmp'', ''drone'', ''ns1'', ''vol-abc''] = ''/tmp/drone/ns1/vol-abc''"
    using cache_inst by blast
  have "toHostPathVolume ex_spec ex_cache =
        Inr \<lparr>v_Name = md_UID (vol_Metadata ex_cache),
             v_HostPath = Some \<lparr>hps_Path = filepath_Join [''/tmp'', ''drone'',
                                     md_Namespace (spec_Metadata ex_spec), md_UID (vol_Metadata ex_cache)],
                                 hps_Type = Some HostPathDirectoryOrCreate\<rparr>,
             v_Secret = None, v_ConfigMap = None\<rparr>"
    using cache_inst cache(1) by blast
  then have one: "toHostPathVolume ex_spec ex_cache =
     Inr \<lparr>v_Name = ''vol-abc'',
          v_HostPath = Some \<lparr>hps_Path = ''/tmp/drone/ns1/vol-abc'',
                              hps_Type = Some HostPathDirectoryOrCreate\<rparr>,
          v_Secret = None, v_ConfigMap = None\<rparr>"
    unfolding cache(2) ns path .
  have "toHostPathVolume ex_spec ex_sock =
        Inr \<lparr>v_Name = md_UID (vol_Metadata ex_sock),
             v_HostPath = Some \<lparr>hps_Path = hp_Path \<lparr>hp_Path = ''/var/run/docker.sock''\<rparr>,
                                 hps_Type = Some HostPathDirectoryOrCreate\<rparr>,
             v_Secret = None, v_ConfigMap = None\<rparr>"
    using sock_inst sock(1,2) by blast
  then have two: "toHostPathVolume ex_spec ex_sock =
     Inr \<lparr>v_Name = ''vol-def'',
          v_HostPath = Some \<lparr>hps_Path = ''/var/run/docker.sock'',
                              hps_Type = Some HostPathDirectoryOrCreate\<rparr>,
          v_Secret = None, v_ConfigMap = None\<rparr>"
    unfolding sock(3) by simp
  have "\<exists>before v after.
          toVolumes ex_spec (ex_step\<lparr>step_Volumes := []\<rparr>) = Inr before
        \<and> toHostPathVolume ex_spec ex_cache = Inr v
        \<and> toVolumes ex_spec (ex_step\<lparr>step_Volumes :=
             [\<lparr>vm_Name = ''certs'', vm_Path = ''/etc/certs''\<rparr>, \<lparr>vm_Name = ''nowhere'', vm_Path = ''/mnt''\<rparr>]\<rparr>) = Inr after
        \<and> toVolumes ex_spec ex_step = Inr (before @ [v] @ after)"
    using cache_inst cache(1) found vols by blast
  then obtain before v after where
    b: "toVolumes ex_spec (ex_step\<lparr>step_Volumes := []\<rparr>) = Inr before"
    and v: "toHostPathVolume ex_spec ex_cache = Inr v"
    and r: "toVolumes ex_spec ex_step = Inr (before @ [v] @ after)"
    by blast
  from b have "before = []"
    by (simp add: toVolumes_def)
  moreover from v one have "v = \<lparr>v_Name = ''vol-abc'',
                     v_HostPath = Some \<lparr>hps_Path = ''/tmp/drone/ns1/vol-abc'',
                                         hps_Type = Some HostPathDirectoryOrCreate\<rparr>,
                     v_Secret = None, v_ConfigMap = None\<rparr>"
    by simp
  ultimately have three: "\<exists>after. toVolumes ex_spec ex_step =
         Inr ([] @ [\<lparr>v_Name = ''vol-abc'',
                     v_HostPath = Some \<lparr>hps_Path = ''/tmp/drone/ns1/vol-abc'',
                                         hps_Type = Some HostPathDirectoryOrCreate\<rparr>,
                     v_Secret = None, v_ConfigMap = None\<rparr>] @ after)"
    using r by blast
  from one two three show ?thesis by blast
qed

section \<open>References that do not resolve\<close>

lemma toEnv_secrets_skip:
  "LookupSecret spec (sv_Name secret) = None \<Longrightarrow>
   toEnv_secrets spec (pre @ secret # post) to = toEnv_secrets spec (pre @ post) to"
  using toEnv_secrets_acc [of spec "pre @ secret # post" to] toEnv_secrets_acc [of spec "pre @ post" to]
  by (simp add: toEnv_secrets_append)

lemma toConfigVolumes_loop_skip:
  "LookupFile spec (fm_Name mount) = None \<Longrightarrow>
   toConfigVolumes_loop spec (pre @ mount # post) [] = toConfigVolumes_loop spec (pre @ post) []"
  by (simp add: toConfigVolumes_loop_append)

lemma toConfigMounts_loop_skip:
  "LookupFile spec (fm_Name mount) = None \<Longrightarrow>
   toConfigMounts_loop spec (pre @ mount # post) [] = toConfigMounts_loop spec (pre @ post) []"
  by (simp add: toConfigMounts_loop_append)

lemma toVolumeMounts_loop_skip:
  "LookupVolume spec (vm_Name mount) = None \<Longrightarrow>
   toVolumeMounts_loop spec (pre @ mount # post) [] = toVolumeMounts_loop spec (pre @ post) []"
  by (simp add: toVolumeMounts_loop_append)

lemma toVolumes_loop_skip:
  "LookupVolume spec (vm_Name mount) = None \<Longrightarrow>
   toVolumes_loop spec (pre @ mount # post) [] = toVolumes_loop spec (pre @ post) []"
  by (simp add: toVolumes_loop_bind split: sum.splits)

lemma toPod_total: "\<exists>pod. toPod spec step = Inr pod"
  using toVolumes_total [of spec step] by (auto simp: toPod_def Let_def)

lemma toPod_cong:
  assumes "toVolumes spec step' = toVolumes spec step"
    and "toConfigVolumes spec step' = toConfigVolumes spec step"
    and "toVolumeMounts spec step' = toVolumeMounts spec step"
    and "toConfigMounts spec step' = toConfigMounts spec step"
    and "toEnv spec step' = toEnv spec step"
    and "toPorts step' = toPorts step"
    and "toResources step' = toResources step"
    and "step_Envs step' = step_Envs step"
    and "step_Metadata step' = step_Metadata step"
    and "step_Docker step' = step_Docker step"
    and "step_WorkingDir step' = step_WorkingDir step"
  shows "toPod spec step' = toPod spec step"
  unfolding toPod_def assms ..

text \<open>
  Claim C3. A secret, file or volume mount of the step whose name the specification does not
  have leaves no trace: the environment, the config volumes and mounts, and the volumes and
  mounts are what they are for the step without that mount, and so is the whole pod. No
  translation function has an error result, and the two that carry the nil-dereference
  branch, \<open>toVolumes\<close> and \<open>toPod\<close>, return a value for every specification and step.
\<close>

theorem dangling_reference_skipped:
  "(LookupSecret spec (sv_Name secret) = None \<and> step_Secrets step = pre_s @ secret # post_s \<longrightarrow>
      toEnv spec step = toEnv spec (step\<lparr>step_Secrets := pre_s @ post_s\<rparr>)
      \<and> toPod spec step = toPod spec (step\<lparr>step_Secrets := pre_s @ post_s\<rparr>))
   \<and> (LookupFile spec (fm_Name fmount) = None \<and> step_Files step = pre_f @ fmount # post_f \<longrightarrow>
      toConfigVolumes spec step = toConfigVolumes spec (step\<lparr>step_Files := pre_f @ post_f\<rparr>)
      \<and> toConfigMounts spec step = toConfigMounts spec (step\<lparr>step_Files := pre_f @ post_f\<rparr>)
      \<and> toPod spec step = toPod spec (step\<lparr>step_Files := pre_f @ post_f\<rparr>))
   \<and> (LookupVolume spec (vm_Name vmount) = None \<and> step_Volumes step = pre_v @ vmount # post_v \<longrightarrow>
      toVolumes spec step = toVolumes spec (step\<lparr>step_Volumes := pre_v @ post_v\<rparr>)
      \<and> toVolumeMounts spec step = toVolumeMounts spec (step\<lparr>step_Volumes := pre_v @ post_v\<rparr>)
      \<and> toPod spec step = toPod spec (step\<lparr>step_Volumes := pre_v @ post_v\<rparr>))
   \<and> (\<exists>vs. toVolumes spec step = Inr vs)
   \<and> (\<exists>pod. toPod spec step = Inr pod)"
proof (intro conjI impI)
  assume a: "LookupSecret spec (sv_Name secret) = None \<and> step_Secrets step = pre_s @ secret # post_s"
  then show env: "toEnv spec step = toEnv spec (step\<lparr>step_Secrets := pre_s @ post_s\<rparr>)"
    by (simp add: toEnv_def Let_def toEnv_secrets_skip)
  show "toPod spec step = toPod spec (step\<lparr>step_Secrets := pre_s @ post_s\<rparr>)"
    by (rule toPod_cong [symmetric])
      (simp_all add: env toVolumes_def toConfigVolumes_def toVolumeMounts_def toConfigMounts_def
        toPorts_def toResources_def)
next
  assume a: "LookupFile spec (fm_Name fmount) = None \<and> step_Files step = pre_f @ fmount # post_f"
  then show vols: "toConfigVolumes spec step = toConfigVolumes spec (step\<lparr>step_Files := pre_f @ post_f\<rparr>)"
    by (simp add: toConfigVolumes_def toConfigVolumes_loop_skip)
  from a show mounts: "toConfigMounts spec step = toConfigMounts spec (step\<lparr>step_Files := pre_f @ post_f\<rparr>)"
    by (simp add: toConfigMounts_def toConfigMounts_loop_skip)
  show "toPod spec step = toPod spec (step\<lparr>step_Files := pre_f @ post_f\<rparr>)"
    by (rule toPod_cong [symmetric])
      (simp_all add: vols mounts toVolumes_def toVolumeMounts_def toEnv_def
        toPorts_def toResources_def)
next
  assume a: "LookupVolume spec (vm_Name vmount) = None \<and> step_Volumes step = pre_v @ vmount # post_v"
  then show vols: "toVolumes spec step = toVolumes spec (step\<lparr>step_Volumes := pre_v @ post_v\<rparr>)"
    by (simp add: toVolumes_def toVolumes_loop_skip)
  from a show mounts: "toVolumeMounts spec step = toVolumeMounts spec (step\<lparr>step_Volumes := pre_v @ post_v\<rparr>)"
    by (simp add: toVolumeMounts_def toVolumeMounts_loop_skip)
  show "toPod spec step = toPod spec (step\<lparr>step_Volumes := pre_v @ post_v\<rparr>)"
    by (rule toPod_cong [symmetric])
      (simp_all add: vols mounts toConfigVolumes_def toConfigMounts_def toEnv_def
        toPorts_def toResources_def)
next
  show "\<exists>vs. toVolumes spec step = Inr vs"
    by (rule toVolumes_total)
next
  show "\<exists>pod. toPod spec step = Inr pod"
    by (rule toPod_total)
qed

text \<open>
  The sample step names the secret \<open>absent\<close>, the file \<open>gone\<close> and the volume \<open>nowhere\<close>,
  none of which the sample specification has.
\<close>

theorem dangling_reference_skipped_witness:
  "LookupSecret ex_spec ''absent'' = None
   \<and> LookupFile ex_spec ''gone'' = None
   \<and> LookupVolume ex_spec ''nowhere'' = None
   \<and> toEnv ex_spec ex_step =
       toEnv ex_spec (ex_step\<lparr>step_Secrets := [\<lparr>sv_Name = ''token'', sv_Env = ''TOKEN''\<rparr>] @ []\<rparr>)
   \<and> toConfigVolumes ex_spec ex_step =
       toConfigVolumes ex_spec (ex_step\<lparr>step_Files :=
         [\<lparr>fm_Name = ''netrc'', fm_Path = ''/root/.netrc'', fm_Mode = 384\<rparr>] @ []\<rparr>)
   \<and> toConfigMounts ex_spec ex_step =
       toConfigMounts ex_spec (ex_step\<lparr>step_Files :=
         [\<lparr>fm_Name = ''netrc'', fm_Path = ''/root/.netrc'', fm_Mode = 384\<rparr>] @ []\<rparr>)
   \<and> toVolumes ex_spec ex_step =
       toVolumes ex_spec (ex_step\<lparr>step_Volumes :=
         [\<lparr>vm_Name = ''cache'', vm_Path = ''/cache''\<rparr>, \<lparr>vm_Name = ''certs'', vm_Path = ''/etc/certs''\<rparr>] @ []\<rparr>)
   \<and> toVolumeMounts ex_spec ex_step =
       toVolumeMounts ex_spec (ex_step\<lparr>step_Volumes :=
         [\<lparr>vm_Name = ''cache'', vm_Path = ''/cache''\<rparr>, \<lparr>vm_Name = ''certs'', vm_Path = ''/etc/certs''\<rparr>] @ []\<rparr>)
   \<and> toPod ex_spec ex_step =
       toPod ex_spec (ex_step\<lparr>step_Volumes :=
         [\<lparr>vm_Name = ''cache'', vm_Path = ''/cache''\<rparr>, \<lparr>vm_Name = ''certs'', vm_Path = ''/etc/certs''\<rparr>] @ []\<rparr>)
   \<and> (\<exists>pod. toPod ex_spec ex_step = Inr pod)"
proof -
  have secret: "LookupSecret ex_spec (sv_Name \<lparr>sv_Name = ''absent'', sv_Env = ''ABSENT''\<rparr>) = None
      \<and> step_Secrets ex_step = [\<lparr>sv_Name = ''token'', sv_Env = ''TOKEN''\<rparr>]
           @ \<lparr>sv_Name = ''absent'', sv_Env = ''ABSENT''\<rparr> # []"
    by (simp add: LookupSecret_def ex_spec_def ex_step_def ex_token_def ex_crt_def ex_md_def)
  have fl: "LookupFile ex_spec (fm_Name \<lparr>fm_Name = ''gone'', fm_Path = ''/root/gone'', fm_Mode = 384\<rparr>) = None
      \<and> step_Files ex_step = [\<lparr>fm_Name = ''netrc'', fm_Path = ''/root/.netrc'', fm_Mode = 384\<rparr>]
           @ \<lparr>fm_Name = ''gone'', fm_Path = ''/root/gone'', fm_Mode = 384\<rparr> # []"
    by (simp add: LookupFile_def ex_spec_def ex_step_def ex_netrc_def ex_md_def)
  have vol: "LookupVolume ex_spec (vm_Name \<lparr>vm_Name = ''nowhere'', vm_Path = ''/mnt''\<rparr>) = None
      \<and> step_Volumes ex_step =
           [\<lparr>vm_Name = ''cache'', vm_Path = ''/cache''\<rparr>, \<lparr>vm_Name = ''certs'', vm_Path = ''/etc/certs''\<rparr>]
           @ \<lparr>vm_Name = ''nowhere'', vm_Path = ''/mnt''\<rparr> # []"
    by (simp add: LookupVolume_def ex_spec_def ex_step_def ex_cache_def ex_sock_def ex_certs_def ex_md_def)
  note inst = dangling_reference_skipped [where spec = ex_spec and step = ex_step
      and secret = "\<lparr>sv_Name = ''absent'', sv_Env = ''ABSENT''\<rparr>"
      and pre_s = "[\<lparr>sv_Name = ''token'', sv_Env = ''TOKEN''\<rparr>]" and post_s = "[]"
      and fmount = "\<lparr>fm_Name = ''gone'', fm_Path = ''/root/gone'', fm_Mode = 384\<rparr>"
      and pre_f = "[\<lparr>fm_Name = ''netrc'', fm_Path = ''/root/.netrc'', fm_Mode = 384\<rparr>]" and post_f = "[]"
      and vmount = "\<lparr>vm_Name = ''nowhere'', vm_Path = ''/mnt''\<rparr>"
      and pre_v = "[\<lparr>vm_Name = ''cache'', vm_Path = ''/cache''\<rparr>, \<lparr>vm_Name = ''certs'', vm_Path = ''/etc/certs''\<rparr>]"
      and post_v = "[]"]
  have names: "LookupSecret ex_spec ''absent'' = None" "LookupFile ex_spec ''gone'' = None"
    "LookupVolume ex_spec ''nowhere'' = None"
    using secret fl vol by simp_all
  from inst secret fl vol names show ?thesis by blast
qed

section \<open>Secret volumes\<close>

lemma toSecretVolumes_items_concat:
  "toSecretVolumes_items spec vol secret items [] =
     concat (map (\<lambda>item.
        case LookupSecret spec (md_Name (vol_Metadata vol) @ ''-'' @ vs_Name secret @ ''-'' @ si_Key item) of
          None \<Rightarrow> []
        | Some sec \<Rightarrow>
            [\<lparr>v_Name = md_UID (vol_Metadata vol) @ ''-'' @ si_Key item, v_HostPath = None,
              v_Secret = Some \<lparr>svs_SecretName = md_UID (sec_Metadata sec),
                svs_Items = [\<lparr>ktp_Key = md_UID (sec_Metadata sec), ktp_Path = si_Path item,
                              ktp_Mode = si_Mode item\<rparr>]\<rparr>,
              v_ConfigMap = None\<rparr>]) items)"
proof (induction items)
  case Nil
  show ?case by simp
next
  case (Cons item items)
  show ?case
  proof (cases "LookupSecret spec (md_Name (vol_Metadata vol) @ ''-'' @ vs_Name secret @ ''-'' @ si_Key item)")
    case None
    then show ?thesis using Cons.IH by simp
  next
    case (Some sec)
    then show ?thesis
      using Cons.IH toSecretVolumes_items_acc [of spec vol secret items "[x]" for x]
      by (simp add: Let_def)
  qed
qed

lemma secret_volumes_some:
  "map v_Name (concat (map (\<lambda>item. case f item of None \<Rightarrow> [] | Some sec \<Rightarrow> [g item sec]) items)) =
     map (\<lambda>item. v_Name (g item (the (f item)))) (filter (\<lambda>item. f item \<noteq> None) items)"
  by (induction items) auto

text \<open>
  Claim C1, as the code has it. Let a mount of the step resolve to a volume that has only
  \<open>Secret\<close> set, with N items. Between what the mounts before and after it produce,
  \<open>toVolumeMounts\<close> produces exactly one mount per item, in order, named
  \<open>volumeUID-itemKey\<close>, with mount path \<open>declaredMountPath/itemPath\<close> and the item's path as
  sub-path; and \<open>toVolumes\<close> produces what \<open>toSecretVolumes\<close> returns: one volume for every
  item whose lookup name \<open>volumeName-secretName-itemKey\<close> names a secret of the
  specification, in item order, and none for the other items. Such a volume is named
  \<open>volumeUID-itemKey\<close> and refers to the secret found by its UID, as secret name and as key
  of its one projected item, with the item's path and mode. When every item's lookup name
  resolves there are exactly N volumes, named like the N mounts.
\<close>

theorem secret_volume_fan_out:
  assumes "LookupVolume spec (vm_Name mount) = Some vol"
    and "vol_EmptyDir vol = None" and "vol_HostPath vol = None"
    and "vol_Secret vol = Some secret"
    and "step_Volumes step = pre @ mount # post"
  shows "toVolumeMounts spec step =
       toVolumeMounts spec (step\<lparr>step_Volumes := pre\<rparr>)
       @ map (\<lambda>item. \<lparr>m_Name = md_UID (vol_Metadata vol) @ ''-'' @ si_Key item,
                        m_MountPath = vm_Path mount @ ''/'' @ si_Path item,
                        m_SubPath = si_Path item\<rparr>) (vs_Items secret)
       @ toVolumeMounts spec (step\<lparr>step_Volumes := post\<rparr>)
     \<and> toSecretVolumes spec vol =
       Inr (concat (map (\<lambda>item.
          case LookupSecret spec (md_Name (vol_Metadata vol) @ ''-'' @ vs_Name secret @ ''-'' @ si_Key item) of
            None \<Rightarrow> []
          | Some sec \<Rightarrow>
              [\<lparr>v_Name = md_UID (vol_Metadata vol) @ ''-'' @ si_Key item, v_HostPath = None,
                v_Secret = Some \<lparr>svs_SecretName = md_UID (sec_Metadata sec),
                  svs_Items = [\<lparr>ktp_Key = md_UID (sec_Metadata sec), ktp_Path = si_Path item,
                                ktp_Mode = si_Mode item\<rparr>]\<rparr>,
                v_ConfigMap = None\<rparr>]) (vs_Items secret)))
     \<and> (\<exists>before vs after.
          toVolumes spec (step\<lparr>step_Volumes := pre\<rparr>) = Inr before
        \<and> toSecretVolumes spec vol = Inr vs
        \<and> toVolumes spec (step\<lparr>step_Volumes := post\<rparr>) = Inr after
        \<and> toVolumes spec step = Inr (before @ vs @ after)
        \<and> length vs \<le> length (vs_Items secret)
        \<and> ((\<forall>item \<in> set (vs_Items secret).
               LookupSecret spec (md_Name (vol_Metadata vol) @ ''-'' @ vs_Name secret @ ''-'' @ si_Key item) \<noteq> None) \<longrightarrow>
             length vs = length (vs_Items secret)
             \<and> map v_Name vs = map (\<lambda>item. md_UID (vol_Metadata vol) @ ''-'' @ si_Key item) (vs_Items secret)))"
proof (intro conjI)
  have one: "toVolumeMounts_loop spec [mount] [] =
      map (\<lambda>item. \<lparr>m_Name = md_UID (vol_Metadata vol) @ ''-'' @ si_Key item,
                        m_MountPath = vm_Path mount @ ''/'' @ si_Path item,
                        m_SubPath = si_Path item\<rparr>) (vs_Items secret)"
    using assms(1,4) by (simp add: toVolumeMounts_items_acc)
  have "toVolumeMounts_loop spec (pre @ [mount] @ post) [] =
      toVolumeMounts_loop spec pre [] @ toVolumeMounts_loop spec [mount] []
      @ toVolumeMounts_loop spec post []"
    by (simp only: toVolumeMounts_loop_append)
  then show "toVolumeMounts spec step =
       toVolumeMounts spec (step\<lparr>step_Volumes := pre\<rparr>)
       @ map (\<lambda>item. \<lparr>m_Name = md_UID (vol_Metadata vol) @ ''-'' @ si_Key item,
                        m_MountPath = vm_Path mount @ ''/'' @ si_Path item,
                        m_SubPath = si_Path item\<rparr>) (vs_Items secret)
       @ toVolumeMounts spec (step\<lparr>step_Volumes := post\<rparr>)"
    unfolding one using assms(5) by (simp add: toVolumeMounts_def)
next
  show vols: "toSecretVolumes spec vol =
       Inr (concat (map (\<lambda>item.
          case LookupSecret spec (md_Name (vol_Metadata vol) @ ''-'' @ vs_Name secret @ ''-'' @ si_Key item) of
            None \<Rightarrow> []
          | Some sec \<Rightarrow>
              [\<lparr>v_Name = md_UID (vol_Metadata vol) @ ''-'' @ si_Key item, v_HostPath = None,
                v_Secret = Some \<lparr>svs_SecretName = md_UID (sec_Metadata sec),
                  svs_Items = [\<lparr>ktp_Key = md_UID (sec_Metadata sec), ktp_Path = si_Path item,
                                ktp_Mode = si_Mode item\<rparr>]\<rparr>,
                v_ConfigMap = None\<rparr>]) (vs_Items secret)))"
    using assms(4) by (simp add: toSecretVolumes_def toSecretVolumes_items_concat)
  define vs where "vs = concat (map (\<lambda>item.
          case LookupSecret spec (md_Name (vol_Metadata vol) @ ''-'' @ vs_Name secret @ ''-'' @ si_Key item) of
            None \<Rightarrow> []
          | Some sec \<Rightarrow>
              [\<lparr>v_Name = md_UID (vol_Metadata vol) @ ''-'' @ si_Key item, v_HostPath = None,
                v_Secret = Some \<lparr>svs_SecretName = md_UID (sec_Metadata sec),
                  svs_Items = [\<lparr>ktp_Key = md_UID (sec_Metadata sec), ktp_Path = si_Path item,
                                ktp_Mode = si_Mode item\<rparr>]\<rparr>,
                v_ConfigMap = None\<rparr>]) (vs_Items secret))"
  have sv: "toSecretVolumes spec vol = Inr vs"
    unfolding vs_def by (rule vols)
  obtain before where before: "toVolumes_loop spec pre [] = Inr before"
    using toVolumes_loop_total by blast
  obtain after where after: "toVolumes_loop spec post [] = Inr after"
    using toVolumes_loop_total by blast
  have "toVolumes_loop spec [mount] [] = Inr vs"
    using assms(1-4) sv by simp
  then have all: "toVolumes_loop spec (pre @ mount # post) [] = Inr (before @ vs @ after)"
    using toVolumes_loop_at [OF before _ after] by simp
  have names: "map v_Name vs =
      map (\<lambda>item. md_UID (vol_Metadata vol) @ ''-'' @ si_Key item)
        (filter (\<lambda>item. LookupSecret spec
           (md_Name (vol_Metadata vol) @ ''-'' @ vs_Name secret @ ''-'' @ si_Key item) \<noteq> None) (vs_Items secret))"
    unfolding vs_def by (simp add: secret_volumes_some)
  have "length vs = length (filter (\<lambda>item. LookupSecret spec
           (md_Name (vol_Metadata vol) @ ''-'' @ vs_Name secret @ ''-'' @ si_Key item) \<noteq> None) (vs_Items secret))"
    using arg_cong [OF names, of length] by simp
  then have le: "length vs \<le> length (vs_Items secret)"
    by simp
  have full: "length vs = length (vs_Items secret)
             \<and> map v_Name vs = map (\<lambda>item. md_UID (vol_Metadata vol) @ ''-'' @ si_Key item) (vs_Items secret)"
    if "\<forall>item \<in> set (vs_Items secret).
               LookupSecret spec (md_Name (vol_Metadata vol) @ ''-'' @ vs_Name secret @ ''-'' @ si_Key item) \<noteq> None"
  proof -
    from that have "filter (\<lambda>item. LookupSecret spec
           (md_Name (vol_Metadata vol) @ ''-'' @ vs_Name secret @ ''-'' @ si_Key item) \<noteq> None) (vs_Items secret)
        = vs_Items secret"
      by (simp add: filter_id_conv)
    with names have n: "map v_Name vs = map (\<lambda>item. md_UID (vol_Metadata vol) @ ''-'' @ si_Key item) (vs_Items secret)"
      by simp
    from arg_cong [OF n, of length] have "length vs = length (vs_Items secret)"
      by simp
    with n show ?thesis by blast
  qed
  show "\<exists>before vs after.
          toVolumes spec (step\<lparr>step_Volumes := pre\<rparr>) = Inr before
        \<and> toSecretVolumes spec vol = Inr vs
        \<and> toVolumes spec (step\<lparr>step_Volumes := post\<rparr>) = Inr after
        \<and> toVolumes spec step = Inr (before @ vs @ after)
        \<and> length vs \<le> length (vs_Items secret)
        \<and> ((\<forall>item \<in> set (vs_Items secret).
               LookupSecret spec (md_Name (vol_Metadata vol) @ ''-'' @ vs_Name secret @ ''-'' @ si_Key item) \<noteq> None) \<longrightarrow>
             length vs = length (vs_Items secret)
             \<and> map v_Name vs = map (\<lambda>item. md_UID (vol_Metadata vol) @ ''-'' @ si_Key item) (vs_Items secret))"
  proof (intro exI conjI impI)
    show "toVolumes spec (step\<lparr>step_Volumes := pre\<rparr>) = Inr before"
      using before by (simp add: toVolumes_def)
    show "toSecretVolumes spec vol = Inr vs" by (rule sv)
    show "toVolumes spec (step\<lparr>step_Volumes := post\<rparr>) = Inr after"
      using after by (simp add: toVolumes_def)
    show "toVolumes spec step = Inr (before @ vs @ after)"
      using all assms(5) by (simp add: toVolumes_def)
    show "length vs \<le> length (vs_Items secret)" by (rule le)
  next
    assume "\<forall>item \<in> set (vs_Items secret).
               LookupSecret spec (md_Name (vol_Metadata vol) @ ''-'' @ vs_Name secret @ ''-'' @ si_Key item) \<noteq> None"
    then show "length vs = length (vs_Items secret)"
      using full by blast
  next
    assume "\<forall>item \<in> set (vs_Items secret).
               LookupSecret spec (md_Name (vol_Metadata vol) @ ''-'' @ vs_Name secret @ ''-'' @ si_Key item) \<noteq> None"
    then show "map v_Name vs = map (\<lambda>item. md_UID (vol_Metadata vol) @ ''-'' @ si_Key item) (vs_Items secret)"
      using full by blast
  qed
qed

text \<open>
  The sample volume \<open>certs\<close> declares three items, and the sample specification has a secret
  for the lookup name of the first only: three mounts, one volume.
\<close>

theorem secret_volume_fan_out_counterexample:
  "LookupVolume ex_spec (vm_Name ex_certs_mount) = Some ex_certs
   \<and> vol_EmptyDir ex_certs = None \<and> vol_HostPath ex_certs = None
   \<and> vol_Secret ex_certs = Some ex_tls
   \<and> length (vs_Items ex_tls) = 3
   \<and> toSecretVolumes ex_spec ex_certs =
       Inr [\<lparr>v_Name = ''vol-ghi-crt'', v_HostPath = None,
             v_Secret = Some \<lparr>svs_SecretName = ''sec-2'',
               svs_Items = [\<lparr>ktp_Key = ''sec-2'', ktp_Path = ''tls.crt'', ktp_Mode = Some 256\<rparr>]\<rparr>,
             v_ConfigMap = None\<rparr>]
   \<and> toVolumes ex_spec (ex_step\<lparr>step_Volumes := [ex_certs_mount]\<rparr>) =
       Inr [\<lparr>v_Name = ''vol-ghi-crt'', v_HostPath = None,
             v_Secret = Some \<lparr>svs_SecretName = ''sec-2'',
               svs_Items = [\<lparr>ktp_Key = ''sec-2'', ktp_Path = ''tls.crt'', ktp_Mode = Some 256\<rparr>]\<rparr>,
             v_ConfigMap = None\<rparr>]
   \<and> toVolumeMounts ex_spec (ex_step\<lparr>step_Volumes := [ex_certs_mount]\<rparr>) =
       [\<lparr>m_Name = ''vol-ghi-crt'', m_MountPath = ''/etc/certs/tls.crt'', m_SubPath = ''tls.crt''\<rparr>,
        \<lparr>m_Name = ''vol-ghi-key'', m_MountPath = ''/etc/certs/tls.key'', m_SubPath = ''tls.key''\<rparr>,
        \<lparr>m_Name = ''vol-ghi-ca'', m_MountPath = ''/etc/certs/ca.crt'', m_SubPath = ''ca.crt''\<rparr>]"
proof -
  have found: "LookupVolume ex_spec (vm_Name ex_certs_mount) = Some ex_certs"
    by (simp add: LookupVolume_def ex_certs_mount_def ex_spec_def ex_cache_def ex_sock_def
        ex_certs_def ex_md_def)
  have kind: "vol_EmptyDir ex_certs = None" "vol_HostPath ex_certs = None"
    "vol_Secret ex_certs = Some ex_tls" "length (vs_Items ex_tls) = 3"
    by (simp_all add: ex_certs_def ex_tls_def ex_items_def)
  have vols: "toSecretVolumes ex_spec ex_certs =
       Inr [\<lparr>v_Name = ''vol-ghi-crt'', v_HostPath = None,
             v_Secret = Some \<lparr>svs_SecretName = ''sec-2'',
               svs_Items = [\<lparr>ktp_Key = ''sec-2'', ktp_Path = ''tls.crt'', ktp_Mode = Some 256\<rparr>]\<rparr>,
             v_ConfigMap = None\<rparr>]"
    by (simp add: toSecretVolumes_def LookupSecret_def Let_def ex_certs_def ex_tls_def ex_items_def
        ex_spec_def ex_token_def ex_crt_def ex_md_def)
  have all: "toVolumes ex_spec (ex_step\<lparr>step_Volumes := [ex_certs_mount]\<rparr>) =
       Inr [\<lparr>v_Name = ''vol-ghi-crt'', v_HostPath = None,
             v_Secret = Some \<lparr>svs_SecretName = ''sec-2'',
               svs_Items = [\<lparr>ktp_Key = ''sec-2'', ktp_Path = ''tls.crt'', ktp_Mode = Some 256\<rparr>]\<rparr>,
             v_ConfigMap = None\<rparr>]"
    using found kind(1-3) vols by (simp add: toVolumes_def)
  have mounts: "toVolumeMounts ex_spec (ex_step\<lparr>step_Volumes := [ex_certs_mount]\<rparr>) =
       [\<lparr>m_Name = ''vol-ghi-crt'', m_MountPath = ''/etc/certs/tls.crt'', m_SubPath = ''tls.crt''\<rparr>,
        \<lparr>m_Name = ''vol-ghi-key'', m_MountPath = ''/etc/certs/tls.key'', m_SubPath = ''tls.key''\<rparr>,
        \<lparr>m_Name = ''vol-ghi-ca'', m_MountPath = ''/etc/certs/ca.crt'', m_SubPath = ''ca.crt''\<rparr>]"
    using found kind(3)
    by (simp add: toVolumeMounts_def) (simp add: ex_certs_def ex_tls_def ex_items_def ex_md_def ex_certs_mount_def)
  from found kind vols all mounts show ?thesis by blast
qed

text \<open>
  The sample step mounts \<open>cache\<close>, then \<open>certs\<close>, then a volume that does not exist. With
  the sample specification the three items give three mounts after the mount of \<open>cache\<close>;
  with a secret registered for every item they also give three volumes.
\<close>

theorem secret_volume_fan_out_witness:
  "toVolumeMounts ex_spec ex_step =
     [\<lparr>m_Name = ''vol-abc'', m_MountPath = ''/cache'', m_SubPath = []\<rparr>,
      \<lparr>m_Name = ''vol-ghi-crt'', m_MountPath = ''/etc/certs/tls.crt'', m_SubPath = ''tls.crt''\<rparr>,
      \<lparr>m_Name = ''vol-ghi-key'', m_MountPath = ''/etc/certs/tls.key'', m_SubPath = ''tls.key''\<rparr>,
      \<lparr>m_Name = ''vol-ghi-ca'', m_MountPath = ''/etc/certs/ca.crt'', m_SubPath = ''ca.crt''\<rparr>]
   \<and> (\<exists>vs. toSecretVolumes ex_spec_all ex_certs = Inr vs
         \<and> length vs = 3
         \<and> map v_Name vs = [''vol-ghi-crt'', ''vol-ghi-key'', ''vol-ghi-ca''])"
proof -
  have found: "LookupVolume ex_spec (vm_Name ex_certs_mount) = Some ex_certs"
    "LookupVolume ex_spec_all (vm_Name ex_certs_mount) = Some ex_certs"
    by (simp_all add: LookupVolume_def ex_certs_mount_def ex_spec_all_def ex_spec_def ex_cache_def
        ex_sock_def ex_certs_def ex_md_def)
  have kind: "vol_EmptyDir ex_certs = None" "vol_HostPath ex_certs = None"
    "vol_Secret ex_certs = Some ex_tls"
    by (simp_all add: ex_certs_def)
  have vols: "step_Volumes ex_step =
      [\<lparr>vm_Name = ''cache'', vm_Path = ''/cache''\<rparr>] @ ex_certs_mount # [\<lparr>vm_Name = ''nowhere'', vm_Path = ''/mnt''\<rparr>]"
    by (simp add: ex_step_def ex_certs_mount_def)
  note part = secret_volume_fan_out [OF found(1) kind vols]
  note full = secret_volume_fan_out [OF found(2) kind vols]
  have cache: "toVolumeMounts ex_spec (ex_step\<lparr>step_Volumes := [\<lparr>vm_Name = ''cache'', vm_Path = ''/cache''\<rparr>]\<rparr>) =
      [\<lparr>m_Name = ''vol-abc'', m_MountPath = ''/cache'', m_SubPath = []\<rparr>]"
    by (simp add: toVolumeMounts_def LookupVolume_def ex_spec_def ex_cache_def ex_md_def)
  have nowhere: "toVolumeMounts ex_spec (ex_step\<lparr>step_Volumes := [\<lparr>vm_Name = ''nowhere'', vm_Path = ''/mnt''\<rparr>]\<rparr>) = []"
    by (simp add: toVolumeMounts_def LookupVolume_def ex_spec_def ex_cache_def ex_sock_def
        ex_certs_def ex_md_def)
  have items: "map (\<lambda>item. \<lparr>m_Name = md_UID (vol_Metadata ex_certs) @ ''-'' @ si_Key item,
                        m_MountPath = vm_Path ex_certs_mount @ ''/'' @ si_Path item,
                        m_SubPath = si_Path item\<rparr>) (vs_Items ex_tls) =
     [\<lparr>m_Name = ''vol-ghi-crt'', m_MountPath = ''/etc/certs/tls.crt'', m_SubPath = ''tls.crt''\<rparr>,
      \<lparr>m_Name = ''vol-ghi-key'', m_MountPath = ''/etc/certs/tls.key'', m_SubPath = ''tls.key''\<rparr>,
      \<lparr>m_Name = ''vol-ghi-ca'', m_MountPath = ''/etc/certs/ca.crt'', m_SubPath = ''ca.crt''\<rparr>]"
    by (simp add: ex_certs_def ex_tls_def ex_items_def ex_md_def ex_certs_mount_def)
  have mounts: "toVolumeMounts ex_spec ex_step =
     [\<lparr>m_Name = ''vol-abc'', m_MountPath = ''/cache'', m_SubPath = []\<rparr>,
      \<lparr>m_Name = ''vol-ghi-crt'', m_MountPath = ''/etc/certs/tls.crt'', m_SubPath = ''tls.crt''\<rparr>,
      \<lparr>m_Name = ''vol-ghi-key'', m_MountPath = ''/etc/certs/tls.key'', m_SubPath = ''tls.key''\<rparr>,
      \<lparr>m_Name = ''vol-ghi-ca'', m_MountPath = ''/etc/certs/ca.crt'', m_SubPath = ''ca.crt''\<rparr>]"
    using part [THEN conjunct1] unfolding cache nowhere items by simp
  have resolve: "\<forall>item \<in> set (vs_Items ex_tls).
      LookupSecret ex_spec_all (md_Name (vol_Metadata ex_certs) @ ''-'' @ vs_Name ex_tls @ ''-'' @ si_Key item) \<noteq> None"
    by (simp add: LookupSecret_def ex_spec_all_def ex_certs_def ex_tls_def ex_items_def ex_md_def
        ex_token_def ex_crt_def ex_key_def ex_ca_def)
  have names: "map (\<lambda>item. md_UID (vol_Metadata ex_certs) @ ''-'' @ si_Key item) (vs_Items ex_tls) =
      [''vol-ghi-crt'', ''vol-ghi-key'', ''vol-ghi-ca'']"
    and three: "length (vs_Items ex_tls) = 3"
    by (simp_all add: ex_certs_def ex_tls_def ex_items_def ex_md_def)
  from full [THEN conjunct2, THEN conjunct2] resolve
  have "\<exists>vs. toSecretVolumes ex_spec_all ex_certs = Inr vs
         \<and> length vs = length (vs_Items ex_tls)
         \<and> map v_Name vs = map (\<lambda>item. md_UID (vol_Metadata ex_certs) @ ''-'' @ si_Key item) (vs_Items ex_tls)"
    by blast
  then have "\<exists>vs. toSecretVolumes ex_spec_all ex_certs = Inr vs
         \<and> length vs = 3
         \<and> map v_Name vs = [''vol-ghi-crt'', ''vol-ghi-key'', ''vol-ghi-ca'']"
    unfolding names three .
  with mounts show ?thesis by blast
qed

section \<open>Mounts of secret volumes that have no volume\<close>

lemma LookupVolume_secrets:
  "LookupVolume (spec\<lparr>spec_Secrets := secrets\<rparr>) name = LookupVolume spec name"
  by (simp add: LookupVolume_def)

lemma ex_toVolumes:
  "toVolumes ex_spec ex_step =
     Inr [\<lparr>v_Name = ''vol-abc'',
           v_HostPath = Some \<lparr>hps_Path = ''/tmp/drone/ns1/vol-abc'',
                               hps_Type = Some HostPathDirectoryOrCreate\<rparr>,
           v_Secret = None, v_ConfigMap = None\<rparr>,
          \<lparr>v_Name = ''vol-ghi-crt'', v_HostPath = None,
           v_Secret = Some \<lparr>svs_SecretName = ''sec-2'',
             svs_Items = [\<lparr>ktp_Key = ''sec-2'', ktp_Path = ''tls.crt'', ktp_Mode = Some 256\<rparr>]\<rparr>,
           v_ConfigMap = None\<rparr>]"
  by (simp add: toVolumes_def toHostPathVolume_def toSecretVolumes_def LookupVolume_def
      LookupSecret_def Let_def path_Clean_def clean_elem_def ex_defs)

lemma ex_toVolumeMounts:
  "toVolumeMounts ex_spec ex_step =
     [\<lparr>m_Name = ''vol-abc'', m_MountPath = ''/cache'', m_SubPath = []\<rparr>,
      \<lparr>m_Name = ''vol-ghi-crt'', m_MountPath = ''/etc/certs/tls.crt'', m_SubPath = ''tls.crt''\<rparr>,
      \<lparr>m_Name = ''vol-ghi-key'', m_MountPath = ''/etc/certs/tls.key'', m_SubPath = ''tls.key''\<rparr>,
      \<lparr>m_Name = ''vol-ghi-ca'', m_MountPath = ''/etc/certs/ca.crt'', m_SubPath = ''ca.crt''\<rparr>]"
  by (simp add: toVolumeMounts_def LookupVolume_def ex_defs)

lemma ex_toConfigVolumes:
  "map v_Name (toConfigVolumes ex_spec ex_step) = [''file-1'']"
  by (simp add: toConfigVolumes_def LookupFile_def Let_def ex_defs)

text \<open>
  Claim C10. For a mount that resolves to a volume with \<open>Secret\<close> set, \<open>toVolumeMounts\<close>
  gives one mount per declared item whatever secrets the specification has: it looks no
  secret up. \<open>toSecretVolumes\<close> gives volumes for exactly the items whose lookup name
  \<open>volumeName-secretName-itemKey\<close> names a secret of the specification. So there are a
  specification and a step, with a mount that resolves to a volume that has only \<open>Secret\<close>
  set and an item whose lookup fails, for which the pod's container has a volume mount whose
  name is the name of no volume of the pod.
\<close>

theorem secret_mount_without_volume:
  "(LookupVolume spec (vm_Name mount) = Some vol \<and> vol_Secret vol = Some secret \<longrightarrow>
      toVolumeMounts (spec\<lparr>spec_Secrets := secrets\<rparr>) (step\<lparr>step_Volumes := [mount]\<rparr>) =
        map (\<lambda>item. \<lparr>m_Name = md_UID (vol_Metadata vol) @ ''-'' @ si_Key item,
                         m_MountPath = vm_Path mount @ ''/'' @ si_Path item,
                         m_SubPath = si_Path item\<rparr>) (vs_Items secret))
   \<and> (vol_Secret vol = Some secret \<longrightarrow>
      (\<exists>vs. toSecretVolumes spec vol = Inr vs
         \<and> map v_Name vs =
             map (\<lambda>item. md_UID (vol_Metadata vol) @ ''-'' @ si_Key item)
               (filter (\<lambda>item. LookupSecret spec
                  (md_Name (vol_Metadata vol) @ ''-'' @ vs_Name secret @ ''-'' @ si_Key item) \<noteq> None)
                (vs_Items secret))))
   \<and> (\<exists>sp st mnt v sec item pod c m.
         mnt \<in> set (step_Volumes st)
       \<and> LookupVolume sp (vm_Name mnt) = Some v
       \<and> vol_EmptyDir v = None \<and> vol_HostPath v = None \<and> vol_Secret v = Some sec
       \<and> item \<in> set (vs_Items sec)
       \<and> LookupSecret sp (md_Name (vol_Metadata v) @ ''-'' @ vs_Name sec @ ''-'' @ si_Key item) = None
       \<and> toPod sp st = Inr pod
       \<and> ps_Containers (pod_Spec pod) = [c]
       \<and> m \<in> set (c_VolumeMounts c)
       \<and> m_Name m = md_UID (vol_Metadata v) @ ''-'' @ si_Key item
       \<and> m_Name m \<notin> v_Name ` set (ps_Volumes (pod_Spec pod)))"
proof (intro conjI impI)
  assume "LookupVolume spec (vm_Name mount) = Some vol \<and> vol_Secret vol = Some secret"
  then show "toVolumeMounts (spec\<lparr>spec_Secrets := secrets\<rparr>) (step\<lparr>step_Volumes := [mount]\<rparr>) =
        map (\<lambda>item. \<lparr>m_Name = md_UID (vol_Metadata vol) @ ''-'' @ si_Key item,
                         m_MountPath = vm_Path mount @ ''/'' @ si_Path item,
                         m_SubPath = si_Path item\<rparr>) (vs_Items secret)"
    by (simp add: toVolumeMounts_def LookupVolume_secrets toVolumeMounts_items_acc)
next
  assume "vol_Secret vol = Some secret"
  then have "toSecretVolumes spec vol =
      Inr (toSecretVolumes_items spec vol secret (vs_Items secret) [])"
    by (simp add: toSecretVolumes_def)
  moreover have "map v_Name (toSecretVolumes_items spec vol secret (vs_Items secret) []) =
      map (\<lambda>item. md_UID (vol_Metadata vol) @ ''-'' @ si_Key item)
               (filter (\<lambda>item. LookupSecret spec
                  (md_Name (vol_Metadata vol) @ ''-'' @ vs_Name secret @ ''-'' @ si_Key item) \<noteq> None)
                (vs_Items secret))"
    unfolding toSecretVolumes_items_concat by (simp add: secret_volumes_some)
  ultimately show "\<exists>vs. toSecretVolumes spec vol = Inr vs
         \<and> map v_Name vs =
             map (\<lambda>item. md_UID (vol_Metadata vol) @ ''-'' @ si_Key item)
               (filter (\<lambda>item. LookupSecret spec
                  (md_Name (vol_Metadata vol) @ ''-'' @ vs_Name secret @ ''-'' @ si_Key item) \<noteq> None)
                (vs_Items secret))"
    by blast
next
  define item where "item = \<lparr>si_Key = ''key'', si_Path = ''tls.key'', si_Mode = Some (256 :: int32)\<rparr>"
  define m where "m = \<lparr>m_Name = ''vol-ghi-key'', m_MountPath = ''/etc/certs/tls.key'', m_SubPath = ''tls.key''\<rparr>"
  have mnt: "ex_certs_mount \<in> set (step_Volumes ex_step)"
    by (simp add: ex_step_def ex_certs_mount_def)
  have found: "LookupVolume ex_spec (vm_Name ex_certs_mount) = Some ex_certs"
    by (simp add: LookupVolume_def ex_certs_mount_def ex_defs)
  have kind: "vol_EmptyDir ex_certs = None" "vol_HostPath ex_certs = None"
    "vol_Secret ex_certs = Some ex_tls"
    by (simp_all add: ex_certs_def)
  have it: "item \<in> set (vs_Items ex_tls)"
    by (simp add: item_def ex_tls_def ex_items_def)
  have fails: "LookupSecret ex_spec
      (md_Name (vol_Metadata ex_certs) @ ''-'' @ vs_Name ex_tls @ ''-'' @ si_Key item) = None"
    by (simp add: LookupSecret_def item_def ex_defs)
  obtain pod where pod: "toPod ex_spec ex_step = Inr pod"
    using toPod_total by blast
  then have vols: "ps_Volumes (pod_Spec pod) =
      [\<lparr>v_Name = ''vol-abc'',
           v_HostPath = Some \<lparr>hps_Path = ''/tmp/drone/ns1/vol-abc'',
                               hps_Type = Some HostPathDirectoryOrCreate\<rparr>,
           v_Secret = None, v_ConfigMap = None\<rparr>,
          \<lparr>v_Name = ''vol-ghi-crt'', v_HostPath = None,
           v_Secret = Some \<lparr>svs_SecretName = ''sec-2'',
             svs_Items = [\<lparr>ktp_Key = ''sec-2'', ktp_Path = ''tls.crt'', ktp_Mode = Some 256\<rparr>]\<rparr>,
           v_ConfigMap = None\<rparr>] @ toConfigVolumes ex_spec ex_step"
    by (auto simp: toPod_def Let_def ex_toVolumes)
  from pod obtain c where c: "ps_Containers (pod_Spec pod) = [c]"
    and ms: "c_VolumeMounts c = toVolumeMounts ex_spec ex_step @ toConfigMounts ex_spec ex_step"
    by (auto simp: toPod_def Let_def ex_toVolumes)
  have inm: "m \<in> set (c_VolumeMounts c)"
    unfolding ms ex_toVolumeMounts by (simp add: m_def)
  have name: "m_Name m = md_UID (vol_Metadata ex_certs) @ ''-'' @ si_Key item"
    by (simp add: m_def item_def ex_certs_def ex_md_def)
  have "map v_Name (ps_Volumes (pod_Spec pod)) = [''vol-abc'', ''vol-ghi-crt'', ''file-1'']"
    unfolding vols by (simp add: ex_toConfigVolumes)
  then have "v_Name ` set (ps_Volumes (pod_Spec pod)) = set [''vol-abc'', ''vol-ghi-crt'', ''file-1'']"
    by (metis set_map)
  then have absent: "m_Name m \<notin> v_Name ` set (ps_Volumes (pod_Spec pod))"
    by (simp add: m_def)
  from mnt found kind it fails pod c inm name absent
  show "\<exists>sp st mnt v sec item pod c m.
         mnt \<in> set (step_Volumes st)
       \<and> LookupVolume sp (vm_Name mnt) = Some v
       \<and> vol_EmptyDir v = None \<and> vol_HostPath v = None \<and> vol_Secret v = Some sec
       \<and> item \<in> set (vs_Items sec)
       \<and> LookupSecret sp (md_Name (vol_Metadata v) @ ''-'' @ vs_Name sec @ ''-'' @ si_Key item) = None
       \<and> toPod sp st = Inr pod
       \<and> ps_Containers (pod_Spec pod) = [c]
       \<and> m \<in> set (c_VolumeMounts c)
       \<and> m_Name m = md_UID (vol_Metadata v) @ ''-'' @ si_Key item
       \<and> m_Name m \<notin> v_Name ` set (ps_Volumes (pod_Spec pod))"
    by blast
qed

text \<open>
  In the sample pipeline the mount of \<open>certs\<close> gives its three mounts with and without
  secrets in the specification, and the one volume \<open>vol-ghi-crt\<close>.
\<close>

theorem secret_mount_without_volume_witness:
  "toVolumeMounts (ex_spec\<lparr>spec_Secrets := []\<rparr>) (ex_step\<lparr>step_Volumes := [ex_certs_mount]\<rparr>) =
     [\<lparr>m_Name = ''vol-ghi-crt'', m_MountPath = ''/etc/certs/tls.crt'', m_SubPath = ''tls.crt''\<rparr>,
      \<lparr>m_Name = ''vol-ghi-key'', m_MountPath = ''/etc/certs/tls.key'', m_SubPath = ''tls.key''\<rparr>,
      \<lparr>m_Name = ''vol-ghi-ca'', m_MountPath = ''/etc/certs/ca.crt'', m_SubPath = ''ca.crt''\<rparr>]
   \<and> (\<exists>vs. toSecretVolumes ex_spec ex_certs = Inr vs \<and> map v_Name vs = [''vol-ghi-crt''])"
proof -
  note inst = secret_mount_without_volume [where spec = ex_spec and mount = ex_certs_mount
      and vol = ex_certs and secret = ex_tls and secrets = "[]" and step = ex_step]
  have found: "LookupVolume ex_spec (vm_Name ex_certs_mount) = Some ex_certs \<and> vol_Secret ex_certs = Some ex_tls"
    by (simp add: LookupVolume_def ex_certs_mount_def ex_defs)
  have items: "map (\<lambda>item. \<lparr>m_Name = md_UID (vol_Metadata ex_certs) @ ''-'' @ si_Key item,
                        m_MountPath = vm_Path ex_certs_mount @ ''/'' @ si_Path item,
                        m_SubPath = si_Path item\<rparr>) (vs_Items ex_tls) =
     [\<lparr>m_Name = ''vol-ghi-crt'', m_MountPath = ''/etc/certs/tls.crt'', m_SubPath = ''tls.crt''\<rparr>,
      \<lparr>m_Name = ''vol-ghi-key'', m_MountPath = ''/etc/certs/tls.key'', m_SubPath = ''tls.key''\<rparr>,
      \<lparr>m_Name = ''vol-ghi-ca'', m_MountPath = ''/etc/certs/ca.crt'', m_SubPath = ''ca.crt''\<rparr>]"
    by (simp add: ex_certs_def ex_tls_def ex_items_def ex_md_def ex_certs_mount_def)
  have names: "map (\<lambda>item. md_UID (vol_Metadata ex_certs) @ ''-'' @ si_Key item)
               (filter (\<lambda>item. LookupSecret ex_spec
                  (md_Name (vol_Metadata ex_certs) @ ''-'' @ vs_Name ex_tls @ ''-'' @ si_Key item) \<noteq> None)
                (vs_Items ex_tls)) = [''vol-ghi-crt'']"
    by (simp add: LookupSecret_def ex_defs)
  from inst found have "toVolumeMounts (ex_spec\<lparr>spec_Secrets := []\<rparr>) (ex_step\<lparr>step_Volumes := [ex_certs_mount]\<rparr>) =
        map (\<lambda>item. \<lparr>m_Name = md_UID (vol_Metadata ex_certs) @ ''-'' @ si_Key item,
                         m_MountPath = vm_Path ex_certs_mount @ ''/'' @ si_Path item,
                         m_SubPath = si_Path item\<rparr>) (vs_Items ex_tls)"
    by blast
  then have one: "toVolumeMounts (ex_spec\<lparr>spec_Secrets := []\<rparr>) (ex_step\<lparr>step_Volumes := [ex_certs_mount]\<rparr>) =
     [\<lparr>m_Name = ''vol-ghi-crt'', m_MountPath = ''/etc/certs/tls.crt'', m_SubPath = ''tls.crt''\<rparr>,
      \<lparr>m_Name = ''vol-ghi-key'', m_MountPath = ''/etc/certs/tls.key'', m_SubPath = ''tls.key''\<rparr>,
      \<lparr>m_Name = ''vol-ghi-ca'', m_MountPath = ''/etc/certs/ca.crt'', m_SubPath = ''ca.crt''\<rparr>]"
    unfolding items .
  from inst found have "\<exists>vs. toSecretVolumes ex_spec ex_certs = Inr vs
         \<and> map v_Name vs =
             map (\<lambda>item. md_UID (vol_Metadata ex_certs) @ ''-'' @ si_Key item)
               (filter (\<lambda>item. LookupSecret ex_spec
                  (md_Name (vol_Metadata ex_certs) @ ''-'' @ vs_Name ex_tls @ ''-'' @ si_Key item) \<noteq> None)
                (vs_Items ex_tls))"
    by blast
  then have two: "\<exists>vs. toSecretVolumes ex_spec ex_certs = Inr vs \<and> map v_Name vs = [''vol-ghi-crt'']"
    unfolding names .
  from one two show ?thesis by blast
qed

end
